theory Spec2Isabelle
  imports Main
begin

section \<open>Exceptions, results and external names\<close>

text \<open>
  The stream transports of \<^verbatim>\<open>pulsar/async/stream.py\<close>, embedded as state-passing
  functions. Byte strings are lists of characters. A Python exception is a value of
  \<open>exn\<close>; a method that can raise returns an \<open>outcome\<close> together with the state it
  leaves behind, since the transport object survives the raise.
\<close>

type_synonym bytes = string

datatype exn =
    ValueError string
  | SocketError "int option" string
  | SSLError int string
  | IndexError string
  | TypeError string
  | AttributeError string
  | TooManyConsecutiveWrite
  | OtherError string

text \<open>
  \<open>SocketError (Some n) s\<close> is \<^verbatim>\<open>socket.error(n, s)\<close> and \<open>SocketError None s\<close> is
  \<^verbatim>\<open>socket.error(s)\<close>, whose \<^verbatim>\<open>strerror\<close> is \<^verbatim>\<open>None\<close>. \<open>SSLError n s\<close> is
  \<^verbatim>\<open>ssl.SSLError(n, s)\<close>, a subclass of \<^verbatim>\<open>socket.error\<close>.
\<close>

datatype 'a outcome = Return 'a | Raise exn

datatype transport_kind = Plain | Tls

datatype callback = ReadyRead | ReadyWrite | DoHandshake | ProtoConnectionMade | Shutdown

datatype event =
    DataReceived bytes
  | EofReceived
  | ConnectionMade
  | ConnectionLost exn
  | SockSend bytes nat
  | SockSendError bytes exn
  | SockClosed
  | CloseCalled

datatype send_result = Sent nat | SendRaises exn

datatype recv_result = Recv bytes | RecvRaises exn

datatype handshake_result = HandshakeDone | HandshakeRaises exn

text \<open>
  The attributes of a transport object, followed by its surroundings: what the socket
  will answer to the next calls of \<^verbatim>\<open>send\<close>, \<^verbatim>\<open>recv\<close> and \<^verbatim>\<open>do_handshake\<close>, the
  callbacks the reactor holds for the socket's file descriptor, the callbacks scheduled
  with \<^verbatim>\<open>call_soon\<close>, and the trace of protocol callbacks and socket calls made so far.
  \<open>read_buffer = None\<close> is Python's \<^verbatim>\<open>None\<close>, the class-level default of
  \<^verbatim>\<open>_read_buffer\<close>.
\<close>

record transport =
  kind :: transport_kind
  write_buffer :: "bytes list"
  read_buffer :: "bytes list option"
  paused_reading :: bool
  paused_writing :: bool
  closing :: bool
  consecutive_writes :: nat
  handshake_reading :: bool
  handshake_writing :: bool
  sends :: "send_result list"
  recvs :: "recv_result list"
  handshakes :: "handshake_result list"
  reader :: "callback option"
  writer :: "callback option"
  soon :: "callback list"
  trace :: "event list"

text \<open>
  Names that \<^verbatim>\<open>stream.py\<close> imports from modules outside the files under study
  (\<^verbatim>\<open>pulsar.utils.internet\<close>, and the base class \<^verbatim>\<open>SocketTransport\<close> for
  \<^verbatim>\<open>_check_closed\<close>) are parameters: every theorem holds for all their values.
  \<open>check_closed\<close> gives the exception \<^verbatim>\<open>_check_closed\<close> raises, if any.
\<close>

record externals =
  WRITE_BUFFER_MAX_SIZE :: nat
  TRY_WRITE_AGAIN :: "int list"
  EWOULDBLOCK :: int
  check_closed :: "transport \<Rightarrow> exn option"

definition SSLV3_ALERT_CERTIFICATE_UNKNOWN :: int where
  "SSLV3_ALERT_CERTIFICATE_UNKNOWN = 1"

definition SSL3_WRITE_PENDING :: int where
  "SSL3_WRITE_PENDING = 1"

definition MAX_CONSECUTIVE_WRITES :: nat where
  "MAX_CONSECUTIVE_WRITES = 500"

text \<open>The values of the standard library's \<^verbatim>\<open>ssl.SSL_ERROR_WANT_READ\<close> and
  \<^verbatim>\<open>ssl.SSL_ERROR_WANT_WRITE\<close>.\<close>

definition SSL_ERROR_WANT_READ :: int where
  "SSL_ERROR_WANT_READ = 2"

definition SSL_ERROR_WANT_WRITE :: int where
  "SSL_ERROR_WANT_WRITE = 3"

section \<open>The reactor and the base transport\<close>

definition add_reader :: "callback \<Rightarrow> transport \<Rightarrow> transport" where
  "add_reader cb t = t\<lparr>reader := Some cb\<rparr>"

definition remove_reader :: "transport \<Rightarrow> transport" where
  "remove_reader t = t\<lparr>reader := None\<rparr>"

definition add_writer :: "callback \<Rightarrow> transport \<Rightarrow> transport" where
  "add_writer cb t = t\<lparr>writer := Some cb\<rparr>"

definition remove_writer :: "transport \<Rightarrow> transport" where
  "remove_writer t = t\<lparr>writer := None\<rparr>"

definition call_soon :: "callback \<Rightarrow> transport \<Rightarrow> transport" where
  "call_soon cb t = t\<lparr>soon := soon t @ [cb]\<rparr>"

definition connection_lost_delivered :: "transport \<Rightarrow> bool" where
  "connection_lost_delivered t = (\<exists>e \<in> set (trace t). case e of ConnectionLost _ \<Rightarrow> True | _ \<Rightarrow> False)"

text \<open>
  Modelled from the spec: \<^verbatim>\<open>SocketTransport.abort\<close>, defined in
  \<^verbatim>\<open>pulsar/async/internet.py\<close>, which is not among the files under study. The spec:
  "\<^verbatim>\<open>abort(failure)\<close>: unconditionally tears down the socket, removes all reactor
  registrations, and invokes \<^verbatim>\<open>connection_lost(failure)\<close> exactly once", and "no
  Protocol callback is invoked after \<^verbatim>\<open>connection_lost\<close> has been delivered". A second
  abort therefore delivers nothing more.
\<close>

definition abort :: "exn \<Rightarrow> transport \<Rightarrow> transport" where
  "abort failure t =
     (let t1 = remove_writer (remove_reader t)
      in if connection_lost_delivered t1 then t1
         else t1\<lparr>trace := trace t1 @ [SockClosed, ConnectionLost failure]\<rparr>)"

text \<open>
  Modelled from the spec: \<^verbatim>\<open>SocketTransport.close\<close>, also in
  \<^verbatim>\<open>pulsar/async/internet.py\<close>. The spec: "\<^verbatim>\<open>closing\<close> (bool): set once a graceful
  close is requested; actual socket close deferred until the write queue drains".
\<close>

definition close :: "transport \<Rightarrow> transport" where
  "close t = t\<lparr>closing := True, trace := trace t @ [CloseCalled]\<rparr>"

section \<open>Error classification\<close>

text \<open>\<^verbatim>\<open>except self.SocketError\<close>: \<^verbatim>\<open>socket.error\<close> for the plain transport, which
  also catches its subclass \<^verbatim>\<open>ssl.SSLError\<close>; \<^verbatim>\<open>ssl.SSLError\<close> for the TLS one.\<close>

fun is_SocketError :: "transport_kind \<Rightarrow> exn \<Rightarrow> bool" where
  "is_SocketError Plain (SocketError _ _) = True"
| "is_SocketError Plain (SSLError _ _) = True"
| "is_SocketError Tls (SSLError _ _) = True"
| "is_SocketError _ _ = False"

text \<open>\<^verbatim>\<open>e.args[0]\<close> of a socket error: the error number when there is one.\<close>

fun args0 :: "exn \<Rightarrow> int option" where
  "args0 (SocketError n _) = n"
| "args0 (SSLError n _) = Some n"
| "args0 _ = None"

fun write_continue :: "externals \<Rightarrow> transport_kind \<Rightarrow> exn \<Rightarrow> bool" where
  "write_continue x Plain e = (case args0 e of None \<Rightarrow> False | Some n \<Rightarrow> n \<in> set (TRY_WRITE_AGAIN x))"
| "write_continue x Tls e = (case args0 e of None \<Rightarrow> False
     | Some n \<Rightarrow> n \<in> set [SSL_ERROR_WANT_WRITE, SSL3_WRITE_PENDING])"

fun read_continue :: "externals \<Rightarrow> transport_kind \<Rightarrow> exn \<Rightarrow> bool" where
  "read_continue x Plain e = (case args0 e of None \<Rightarrow> False | Some n \<Rightarrow> n = EWOULDBLOCK x)"
| "read_continue x Tls e = (case args0 e of None \<Rightarrow> False
     | Some n \<Rightarrow> n \<in> set [SSLV3_ALERT_CERTIFICATE_UNKNOWN, SSL_ERROR_WANT_READ])"

section \<open>The socket\<close>

text \<open>
  A non-blocking socket answers each call from its pending results; with none pending
  the call would block, which a plain socket reports as \<^verbatim>\<open>socket.error(EWOULDBLOCK)\<close>
  and a TLS socket as a want-write or want-read \<^verbatim>\<open>SSLError\<close>. \<open>Sent n\<close> is a socket
  with room for \<open>n\<close> bytes: \<^verbatim>\<open>send\<close> returns how many bytes of the data it took.
\<close>

fun would_block_write :: "externals \<Rightarrow> transport_kind \<Rightarrow> exn" where
  "would_block_write x Plain = SocketError (Some (EWOULDBLOCK x)) ''would block''"
| "would_block_write x Tls = SSLError SSL_ERROR_WANT_WRITE ''want write''"

fun would_block_read :: "externals \<Rightarrow> transport_kind \<Rightarrow> exn" where
  "would_block_read x Plain = SocketError (Some (EWOULDBLOCK x)) ''would block''"
| "would_block_read x Tls = SSLError SSL_ERROR_WANT_READ ''want read''"

definition sock_send :: "externals \<Rightarrow> transport \<Rightarrow> bytes \<Rightarrow> nat outcome \<times> transport" where
  "sock_send x t data =
     (case sends t of
        [] \<Rightarrow> (Raise (would_block_write x (kind t)),
               t\<lparr>trace := trace t @ [SockSendError data (would_block_write x (kind t))]\<rparr>)
      | Sent n # rs \<Rightarrow>
          (Return (min n (length data)),
           t\<lparr>sends := rs, trace := trace t @ [SockSend data (min n (length data))]\<rparr>)
      | SendRaises e # rs \<Rightarrow>
          (Raise e, t\<lparr>sends := rs, trace := trace t @ [SockSendError data e]\<rparr>))"

section \<open>Writing\<close>

text \<open>
  Modelled from the spec: the loop inside \<^verbatim>\<open>merge_prefix\<close> of
  \<^verbatim>\<open>pulsar.utils.structures\<close>, which is not among the files under study. The spec has
  the write-ready handler "trim the front of the queue by the sent byte count".
  \<open>take_prefix\<close> pops chunks until \<open>size\<close> bytes are collected, pushing back the rest
  of a chunk that is too long; it gives the chunks collected and the deque that remains.
\<close>

fun take_prefix :: "nat \<Rightarrow> bytes list \<Rightarrow> bytes list \<times> bytes list" where
  "take_prefix 0 dq = ([], dq)"
| "take_prefix (Suc n) [] = ([], [])"
| "take_prefix (Suc n) (chunk # dq) =
     (if length chunk > Suc n then ([take (Suc n) chunk], drop (Suc n) chunk # dq)
      else (let (prefix, rest) = take_prefix (Suc n - length chunk) dq
            in (chunk # prefix, rest)))"

text \<open>
  Modelled from the spec: \<^verbatim>\<open>merge_prefix\<close> of \<^verbatim>\<open>pulsar.utils.structures\<close>, which is
  not among the files under study. After \<^verbatim>\<open>merge_prefix(buffer, size)\<close> the first
  entry of the deque holds the first \<open>size\<close> bytes of the queue, so that the
  \<^verbatim>\<open>popleft\<close> that follows removes exactly the bytes sent, as the spec's "trim the front
  of the queue by the sent byte count" asks.
\<close>

definition merge_prefix :: "bytes list \<Rightarrow> nat \<Rightarrow> bytes list" where
  "merge_prefix dq sz =
     (if length dq = 1 \<and> length (hd dq) \<le> sz then dq
      else (let (prefix, rest) = take_prefix sz dq;
                dq' = (if prefix \<noteq> [] then concat prefix # rest else rest)
            in if dq' = [] then [[]] else dq'))"

text \<open>The \<^verbatim>\<open>while buffer\<close> loop of \<^verbatim>\<open>_ready_write\<close>, with the inner \<^verbatim>\<open>try\<close>: a
  socket error that \<^verbatim>\<open>_write_continue\<close> accepts ends the loop, anything else leaves it
  as an exception for the outer handler.\<close>

function write_loop :: "externals \<Rightarrow> transport \<Rightarrow> nat \<Rightarrow> nat outcome \<times> transport" where
  "write_loop x t tot_bytes =
     (case write_buffer t of
        [] \<Rightarrow> (Return tot_bytes, t)
      | chunk # _ \<Rightarrow>
          (case sock_send x t chunk of
             (Raise e, t1) \<Rightarrow>
               if is_SocketError (kind t1) e \<and> write_continue x (kind t1) e
               then (Return tot_bytes, t1) else (Raise e, t1)
           | (Return sent, t1) \<Rightarrow>
               if sent = 0 then (Return tot_bytes, t1)
               else (case merge_prefix (write_buffer t1) sent of
                       [] \<Rightarrow> (Raise (IndexError ''pop from an empty deque''), t1)
                     | _ # rest \<Rightarrow>
                         write_loop x (t1\<lparr>write_buffer := rest\<rparr>) (tot_bytes + sent))))"
  by pat_completeness auto

termination write_loop
  apply (relation "measure (\<lambda>(x, t, tot). length (sends t))")
   apply simp
  apply (auto simp: sock_send_def split: list.splits send_result.splits)
  done

declare write_loop.simps [simp del]

text \<open>\<^verbatim>\<open>_ready_write\<close>: the result is \<^verbatim>\<open>tot_bytes\<close>, or \<^verbatim>\<open>None\<close> after a failure.
  The warning logged on an empty buffer is not recorded.\<close>

definition ready_write :: "externals \<Rightarrow> transport \<Rightarrow> nat option \<times> transport" where
  "ready_write x t =
     (if paused_writing t then (Some 0, t)
      else (case write_loop x t 0 of
              (Raise failure, t1) \<Rightarrow>
                (None, if \<not> closing t1 then abort failure t1 else t1)
            | (Return tot_bytes, t1) \<Rightarrow>
                (Some tot_bytes,
                 if write_buffer t1 = [] then
                   (let t2 = remove_writer t1
                    in if closing t2 then call_soon Shutdown t2 else t2)
                 else t1)))"

text \<open>\<^verbatim>\<open>range(0, stop, step)\<close> for a positive step.\<close>

definition range0 :: "nat \<Rightarrow> nat \<Rightarrow> nat list" where
  "range0 stop step = map (\<lambda>k. k * step) [0..<(stop + step - 1) div step]"

text \<open>The pieces \<^verbatim>\<open>data[i:i+WRITE_BUFFER_MAX_SIZE]\<close> that \<^verbatim>\<open>write\<close> appends.\<close>

definition pieces :: "nat \<Rightarrow> bytes \<Rightarrow> bytes list" where
  "pieces m data = map (\<lambda>i. take m (drop i data)) (range0 (length data) m)"

text \<open>\<^verbatim>\<open>write\<close>, under the name \<open>transport_write\<close>. A step of zero makes \<^verbatim>\<open>range\<close> raise \<^verbatim>\<open>ValueError\<close>.\<close>

definition transport_write :: "externals \<Rightarrow> bytes \<Rightarrow> transport \<Rightarrow> unit outcome \<times> transport" where
  "transport_write x data t =
     (if data = [] then (Return (), t)
      else (case check_closed x t of
              Some e \<Rightarrow> (Raise e, t)
            | None \<Rightarrow>
               (let is_writing = (write_buffer t \<noteq> [])
                in if length data > WRITE_BUFFER_MAX_SIZE x \<and> WRITE_BUFFER_MAX_SIZE x = 0
                   then (Raise (ValueError ''range() arg 3 must not be zero''), t)
                   else
                    (let t1 = t\<lparr>write_buffer := write_buffer t @
                                 (if length data > WRITE_BUFFER_MAX_SIZE x
                                  then pieces (WRITE_BUFFER_MAX_SIZE x) data
                                  else [data])\<rparr>
                     in if paused_writing t1 then (Return (), t1)
                        else if \<not> is_writing then
                          (let t2 = snd (ready_write x (t1\<lparr>consecutive_writes := 0\<rparr>))
                           in if write_buffer t2 \<noteq> [] then (Return (), add_writer ReadyWrite t2)
                              else if closing t2 then (Return (), call_soon Shutdown t2)
                              else (Return (), t2))
                        else
                          (let t2 = t1\<lparr>consecutive_writes := consecutive_writes t1 + 1\<rparr>
                           in if consecutive_writes t2 > MAX_CONSECUTIVE_WRITES
                              then (Return (), abort TooManyConsecutiveWrite t2)
                              else (Return (), t2))))))"






text \<open>The bytes the socket accepted, in the order of the \<^verbatim>\<open>send\<close> calls.\<close>

fun sent_of :: "event \<Rightarrow> bytes" where
  "sent_of (SockSend data n) = take n data"
| "sent_of _ = []"

definition sent_bytes :: "event list \<Rightarrow> bytes" where
  "sent_bytes tr = concat (map sent_of tr)"

text \<open>Whether an event is a call of \<^verbatim>\<open>send\<close> on the socket, successful or not.\<close>

fun is_send :: "event \<Rightarrow> bool" where
  "is_send (SockSend _ _) = True"
| "is_send (SockSendError _ _) = True"
| "is_send _ = False"

section \<open>Reading\<close>

definition sock_recv :: "externals \<Rightarrow> transport \<Rightarrow> bytes outcome \<times> transport" where
  "sock_recv x t =
     (case recvs t of
        [] \<Rightarrow> (Raise (would_block_read x (kind t)), t)
      | Recv data # rs \<Rightarrow> (Return data, t\<lparr>recvs := rs\<rparr>)
      | RecvRaises e # rs \<Rightarrow> (Raise e, t\<lparr>recvs := rs\<rparr>))"

text \<open>\<^verbatim>\<open>pause_reading\<close> and \<^verbatim>\<open>resume_reading\<close>. Iterating over \<^verbatim>\<open>None\<close> raises
  \<^verbatim>\<open>TypeError\<close>, after the two assignments.\<close>

definition pause_reading :: "transport \<Rightarrow> transport" where
  "pause_reading t = (if \<not> paused_reading t then t\<lparr>paused_reading := True\<rparr> else t)"

definition resume_reading :: "transport \<Rightarrow> unit outcome \<times> transport" where
  "resume_reading t =
     (if paused_reading t then
        (let buffer = read_buffer t;
             t1 = t\<lparr>paused_reading := False, read_buffer := None\<rparr>
         in case buffer of
              None \<Rightarrow> (Raise (TypeError ''NoneType object is not iterable''), t1)
            | Some chunks \<Rightarrow> (Return (), t1\<lparr>trace := trace t1 @ map DataReceived chunks\<rparr>))
      else (Return (), t))"

text \<open>
  The \<^verbatim>\<open>while chunk\<close> loop of \<^verbatim>\<open>_ready_read\<close> with its inner \<^verbatim>\<open>try\<close>. The result
  is \<open>None\<close> when the method returns and \<open>Some e\<close> when \<open>e\<close> reaches the outer handlers.
  Appending to a \<^verbatim>\<open>_read_buffer\<close> that is \<^verbatim>\<open>None\<close> raises \<^verbatim>\<open>AttributeError\<close>.
  Protocol callbacks are recorded in the trace and return normally.
\<close>

function read_loop :: "externals \<Rightarrow> transport \<Rightarrow> nat \<Rightarrow> exn option \<times> transport" where
  "read_loop x t passes =
     (case sock_recv x t of
        (Raise e, t1) \<Rightarrow>
          if is_SocketError (kind t1) e \<and> read_continue x (kind t1) e then (None, t1)
          else (Some e, t1)
      | (Return chunk, t1) \<Rightarrow>
          if chunk \<noteq> [] then
            (if paused_reading t1 then
               (case read_buffer t1 of
                  None \<Rightarrow> (Some (AttributeError ''NoneType object has no attribute append''), t1)
                | Some buffer \<Rightarrow>
                    read_loop x (t1\<lparr>read_buffer := Some (buffer @ [chunk])\<rparr>) (passes + 1))
             else read_loop x (t1\<lparr>trace := trace t1 @ [DataReceived chunk]\<rparr>) (passes + 1))
          else if passes = 0 then (None, close (t1\<lparr>trace := trace t1 @ [EofReceived]\<rparr>))
          else (None, t1))"
  by pat_completeness auto

termination read_loop
  apply (relation "measure (\<lambda>(x, t, passes). length (recvs t))")
    apply simp
   apply (auto simp: sock_recv_def split: list.splits recv_result.splits)
  done

declare read_loop.simps [simp del]

text \<open>\<^verbatim>\<open>_ready_read\<close>: a socket error is dropped when the transport is closing; any
  other failure aborts.\<close>

definition ready_read :: "externals \<Rightarrow> transport \<Rightarrow> transport" where
  "ready_read x t =
     (case read_loop x t 0 of
        (None, t1) \<Rightarrow> t1
      | (Some e, t1) \<Rightarrow>
          (let failure = (if is_SocketError (kind t1) e
                          then (if closing t1 then None else Some e)
                          else Some e)
           in case failure of None \<Rightarrow> t1 | Some f \<Rightarrow> abort f t1))"

section \<open>The TLS handshake\<close>

definition sock_do_handshake :: "externals \<Rightarrow> transport \<Rightarrow> unit outcome \<times> transport" where
  "sock_do_handshake x t =
     (case handshakes t of
        [] \<Rightarrow> (Raise (would_block_read x Tls), t)
      | HandshakeDone # rs \<Rightarrow> (Return (), t\<lparr>handshakes := rs\<rparr>)
      | HandshakeRaises e # rs \<Rightarrow> (Raise e, t\<lparr>handshakes := rs\<rparr>))"

text \<open>\<^verbatim>\<open>SocketStreamTransport._do_handshake\<close>.\<close>

definition plain_do_handshake :: "transport \<Rightarrow> transport" where
  "plain_do_handshake t = call_soon ProtoConnectionMade (add_reader ReadyRead t)"

text \<open>
  \<^verbatim>\<open>SocketStreamSslTransport._do_handshake\<close>. Its \<^verbatim>\<open>try\<close> statement has two handlers
  side by side: the \<^verbatim>\<open>raise\<close> in the \<^verbatim>\<open>except self.SocketError\<close> handler leaves the
  statement, since a handler does not catch what a sibling handler raises; the
  \<^verbatim>\<open>except Exception\<close> handler, and the \<^verbatim>\<open>abort\<close> after it, see only exceptions that
  are not an \<^verbatim>\<open>SSLError\<close>.
\<close>

definition ssl_do_handshake :: "externals \<Rightarrow> transport \<Rightarrow> unit outcome \<times> transport" where
  "ssl_do_handshake x t =
     (case sock_do_handshake x t of
        (Raise e, t1) \<Rightarrow>
          if is_SocketError Tls e then
            (if read_continue x Tls e then
               (Return (), add_reader DoHandshake ((remove_reader t1)\<lparr>handshake_reading := True\<rparr>))
             else if write_continue x Tls e then
               (Return (), add_writer DoHandshake ((remove_writer t1)\<lparr>handshake_writing := True\<rparr>))
             else (Raise e, t1))
          else (Return (), abort e t1)
      | (Return _, t1) \<Rightarrow>
          (let t2 = (if handshake_reading t1 then add_reader ReadyRead (remove_reader t1)
                     else (let t3 = (if handshake_writing t1 then remove_writer t1 else t1)
                           in add_writer ReadyWrite (add_reader ReadyRead t3)))
           in (Return (),
               call_soon ProtoConnectionMade
                 (t2\<lparr>handshake_reading := False, handshake_writing := False\<rparr>))))"

section \<open>Sockets and address resolution for the connector and the listener\<close>

text \<open>
  Python's \<^verbatim>\<open>str\<close> of an integer and of an exception, \<^verbatim>\<open>str.lower\<close> on ASCII text
  and \<^verbatim>\<open>str.join\<close>. An \<^verbatim>\<open>SSLError\<close> is printed as Python 2 prints it, like any
  \<^verbatim>\<open>socket.error\<close>; Python 3 prints its message alone. The connector works on plain
  sockets and nothing below depends on that line.
\<close>

definition digit_char :: "nat \<Rightarrow> char" where
  "digit_char d = char_of (48 + d)"

function str_nat :: "nat \<Rightarrow> string" where
  "str_nat n = (if n < 10 then [digit_char n] else str_nat (n div 10) @ [digit_char (n mod 10)])"
  by pat_completeness auto

termination str_nat
  by (relation "measure id") auto

declare str_nat.simps [simp del]

definition str_int :: "int \<Rightarrow> string" where
  "str_int i = (if i < 0 then CHR ''-'' # str_nat (nat (- i)) else str_nat (nat i))"

fun str_exn :: "exn \<Rightarrow> string" where
  "str_exn (SocketError (Some n) s) = ''[Errno '' @ str_int n @ ''] '' @ s"
| "str_exn (SocketError None s) = s"
| "str_exn (SSLError n s) = ''[Errno '' @ str_int n @ ''] '' @ s"
| "str_exn (ValueError s) = s"
| "str_exn (IndexError s) = s"
| "str_exn (TypeError s) = s"
| "str_exn (AttributeError s) = s"
| "str_exn TooManyConsecutiveWrite = []"
| "str_exn (OtherError s) = s"

fun errno :: "exn \<Rightarrow> int option" where
  "errno (SocketError n _) = n"
| "errno (SSLError n _) = Some n"
| "errno _ = None"

fun strerror :: "exn \<Rightarrow> string option" where
  "strerror (SocketError (Some _) s) = Some s"
| "strerror (SSLError _ s) = Some s"
| "strerror _ = None"

definition lower_char :: "char \<Rightarrow> char" where
  "lower_char c = (let n = (of_char c :: nat) in if 65 \<le> n \<and> n \<le> 90 then char_of (n + 32) else c)"

definition str_lower :: "string \<Rightarrow> string" where
  "str_lower s = map lower_char s"

fun str_join :: "string \<Rightarrow> string list \<Rightarrow> string" where
  "str_join sep [] = []"
| "str_join sep [s] = s"
| "str_join sep (s # ss) = s @ sep @ str_join sep ss"

text \<open>
  An address is identified with its \<^verbatim>\<open>repr\<close>, the text the error messages print.
  \<open>addrinfo\<close> is one tuple \<^verbatim>\<open>(family, type, proto, cname, address)\<close> of a resolution
  result, and a socket is named by a number.
\<close>

type_synonym sockaddr = string

record addrinfo =
  ai_family :: nat
  ai_socktype :: nat
  ai_proto :: nat
  ai_canonname :: string
  ai_sockaddr :: sockaddr

datatype sockopt = SO_REUSEADDR | IPV6_V6ONLY

datatype net_event =
    SocketOpened nat
  | SocketClosed nat
  | SetBlocking nat bool
  | SetSockOpt nat sockopt
  | Bound nat sockaddr
  | Connected nat sockaddr
  | Listening nat nat
  | AcceptReaderAdded nat

text \<open>
  The surroundings of the connector and the listener: what resolution returns, which
  socket creations, binds and connects fail and with what exception, the platform
  (\<^verbatim>\<open>AF_INET6\<close>, whether \<^verbatim>\<open>socket.IPPROTO_IPV6\<close> exists, whether the default of
  \<^verbatim>\<open>reuse_address\<close> is on), the number of the next socket, and the log of socket and
  reactor calls made so far. \<open>connect_error\<close> is the outcome of the awaited
  \<^verbatim>\<open>loop.sock_connect\<close>.
\<close>

record net =
  getaddrinfo :: "string option \<Rightarrow> nat option \<Rightarrow> addrinfo list outcome"
  socket_error :: "addrinfo \<Rightarrow> exn option"
  bind_error :: "sockaddr \<Rightarrow> exn option"
  connect_error :: "sockaddr \<Rightarrow> exn option"
  AF_INET6 :: nat
  has_IPPROTO_IPV6 :: bool
  reuse_default :: bool
  next_fd :: nat
  net_log :: "net_event list"

definition record_event :: "net_event \<Rightarrow> net \<Rightarrow> net" where
  "record_event ev w = w\<lparr>net_log := net_log w @ [ev]\<rparr>"

definition socket_factory :: "net \<Rightarrow> addrinfo \<Rightarrow> nat outcome \<times> net" where
  "socket_factory w ai =
     (case socket_error w ai of
        Some e \<Rightarrow> (Raise e, w)
      | None \<Rightarrow> (Return (next_fd w),
                 w\<lparr>next_fd := Suc (next_fd w), net_log := net_log w @ [SocketOpened (next_fd w)]\<rparr>))"

definition sock_close :: "nat \<Rightarrow> net \<Rightarrow> net" where
  "sock_close s w = record_event (SocketClosed s) w"

text \<open>The \<^verbatim>\<open>socket.error\<close> built from a bind failure; \<^verbatim>\<open>exc.strerror.lower()\<close> raises
  \<^verbatim>\<open>AttributeError\<close> when \<^verbatim>\<open>strerror\<close> is \<^verbatim>\<open>None\<close>.\<close>

definition new_bind_error :: "sockaddr \<Rightarrow> exn \<Rightarrow> exn outcome" where
  "new_bind_error addr exc =
     (case strerror exc of
        None \<Rightarrow> Raise (AttributeError ''NoneType object has no attribute lower'')
      | Some text \<Rightarrow>
          Return (SocketError (errno exc)
            (''error while attempting to bind on address '' @ addr @ '': '' @ str_lower text)))"

section \<open>The connector\<close>

text \<open>The loop over \<^verbatim>\<open>laddr_infos\<close>: \<open>Return True\<close> after the \<^verbatim>\<open>break\<close>,
  \<open>Return False\<close> when the loop runs out and its \<^verbatim>\<open>else\<close> applies.\<close>

fun bind_loop :: "nat \<Rightarrow> addrinfo list \<Rightarrow> exn list \<Rightarrow> net \<Rightarrow> bool outcome \<times> exn list \<times> net" where
  "bind_loop s [] exceptions w = (Return False, exceptions, w)"
| "bind_loop s (la # las) exceptions w =
     (case bind_error w (ai_sockaddr la) of
        None \<Rightarrow> (Return True, exceptions, record_event (Bound s (ai_sockaddr la)) w)
      | Some exc \<Rightarrow>
          if is_SocketError Plain exc then
            (case new_bind_error (ai_sockaddr la) exc of
               Raise e \<Rightarrow> (Raise e, exceptions, w)
             | Return exc' \<Rightarrow> bind_loop s las (exceptions @ [exc']) w)
          else (Raise exc, exceptions, w))"

text \<open>
  The loop over the candidates \<^verbatim>\<open>fs[0]\<close>. \<open>sock\<close> is the variable \<^verbatim>\<open>sock\<close>, which
  keeps its value from one candidate to the next. The result is \<open>Return (Some s)\<close>
  after the \<^verbatim>\<open>break\<close>, \<open>Return None\<close> when the candidates run out, and \<open>Raise e\<close> for
  an exception that is no \<^verbatim>\<open>socket.error\<close>.
\<close>

fun connect_loop ::
  "addrinfo list \<Rightarrow> addrinfo list option \<Rightarrow> nat option \<Rightarrow> exn list \<Rightarrow> net
     \<Rightarrow> nat option outcome \<times> exn list \<times> net" where
  "connect_loop [] laddr_infos sock exceptions w = (Return None, exceptions, w)"
| "connect_loop (ai # ais) laddr_infos sock exceptions w =
     (case socket_factory w ai of
        (Raise e, w1) \<Rightarrow>
          if is_SocketError Plain e then
            connect_loop ais laddr_infos sock (exceptions @ [e])
              (case sock of None \<Rightarrow> w1 | Some s \<Rightarrow> sock_close s w1)
          else (Raise e, exceptions, w1)
      | (Return s, w1) \<Rightarrow>
          (let w2 = record_event (SetBlocking s False) w1
           in case (case laddr_infos of
                      None \<Rightarrow> (Return True, exceptions, w2)
                    | Some las \<Rightarrow> bind_loop s las exceptions w2) of
                (Raise e, excs, w3) \<Rightarrow>
                  if is_SocketError Plain e then
                    connect_loop ais laddr_infos (Some s) (excs @ [e]) (sock_close s w3)
                  else (Raise e, excs, w3)
              | (Return bound, excs, w3) \<Rightarrow>
                  if \<not> bound then connect_loop ais laddr_infos None excs (sock_close s w3)
                  else (case connect_error w3 (ai_sockaddr ai) of
                          None \<Rightarrow>
                            (Return (Some s), excs, record_event (Connected s (ai_sockaddr ai)) w3)
                        | Some e \<Rightarrow>
                            if is_SocketError Plain e then
                              connect_loop ais laddr_infos (Some s) (excs @ [e]) (sock_close s w3)
                            else (Raise e, excs, w3))))"

text \<open>What the \<^verbatim>\<open>else\<close> of the candidate loop raises. \<^verbatim>\<open>exceptions[0]\<close> on an empty
  list raises \<^verbatim>\<open>IndexError\<close>.\<close>

definition all_failed :: "exn list \<Rightarrow> exn" where
  "all_failed exceptions =
     (if length exceptions = 1 then exceptions ! 0
      else (case exceptions of
              [] \<Rightarrow> IndexError ''list index out of range''
            | first # _ \<Rightarrow>
                (let model = str_exn first
                 in if list_all (\<lambda>exc. str_exn exc = model) exceptions then first
                    else SocketError None
                           (''Multiple exceptions: '' @ str_join '', '' (map str_exn exceptions)))))"

text \<open>The arguments of \<^verbatim>\<open>create_connection\<close>; family, protocol and flags only reach
  the resolver.\<close>

record connect_args =
  c_host :: "string option"
  c_port :: "nat option"
  c_ssl :: bool
  c_sock :: "nat option"
  c_local_addr :: "(string \<times> nat) option"

definition wrap_socket :: "connect_args \<Rightarrow> nat \<Rightarrow> net \<Rightarrow> (nat \<times> transport_kind) outcome \<times> net" where
  "wrap_socket a s w =
     (Return (s, if c_ssl a then Tls else Plain), record_event (SetBlocking s False) w)"

text \<open>The second resolution, made only when \<^verbatim>\<open>local_addr\<close> is given.\<close>

definition resolve_local :: "net \<Rightarrow> connect_args \<Rightarrow> addrinfo list option outcome" where
  "resolve_local w a =
     (case c_local_addr a of
        None \<Rightarrow> Return None
      | Some (lhost, lport) \<Rightarrow>
          (case getaddrinfo w (Some lhost) (Some lport) of
             Raise e \<Rightarrow> Raise e
           | Return linfos \<Rightarrow> Return (Some linfos)))"

definition create_connection :: "net \<Rightarrow> connect_args \<Rightarrow> (nat \<times> transport_kind) outcome \<times> net" where
  "create_connection w a =
     (if c_host a \<noteq> None \<or> c_port a \<noteq> None then
        (if c_sock a \<noteq> None then
           (Raise (ValueError ''host/port and sock can not be specified at the same time''), w)
         else
           (case getaddrinfo w (c_host a) (c_port a) of
              Raise e \<Rightarrow> (Raise e, w)
            | Return infos \<Rightarrow>
                (case resolve_local w a of
                   Raise e \<Rightarrow> (Raise e, w)
                 | Return laddr_infos \<Rightarrow>
                     if laddr_infos = Some [] then
                       (Raise (SocketError None ''getaddrinfo() returned empty list''), w)
                     else
                       (case connect_loop infos laddr_infos None [] w of
                          (Raise e, exceptions, w1) \<Rightarrow> (Raise e, w1)
                        | (Return None, exceptions, w1) \<Rightarrow> (Raise (all_failed exceptions), w1)
                        | (Return (Some s), exceptions, w1) \<Rightarrow> wrap_socket a s w1))))
      else (case c_sock a of
              None \<Rightarrow> (Raise (ValueError ''host and port was not specified and no sock specified''), w)
            | Some s \<Rightarrow> wrap_socket a s w))"

section \<open>The listener\<close>

datatype sock_arg = NoSock | OneSock nat | SockList "nat list"

record serve_args =
  s_host :: "string option"
  s_port :: "nat option"
  s_sock :: sock_arg
  s_backlog :: nat
  s_reuse_address :: "bool option"

text \<open>The two \<^verbatim>\<open>setsockopt\<close> calls on a new listening socket: \<^verbatim>\<open>SO_REUSEADDR\<close> when
  \<^verbatim>\<open>reuse_address\<close> is set, \<^verbatim>\<open>IPV6_V6ONLY\<close> for an IPv6 socket where the platform
  has \<^verbatim>\<open>IPPROTO_IPV6\<close>.\<close>

definition set_options :: "bool \<Rightarrow> addrinfo \<Rightarrow> nat \<Rightarrow> net \<Rightarrow> net" where
  "set_options reuse_address ai s w =
     (let w2 = (if reuse_address then record_event (SetSockOpt s SO_REUSEADDR) w else w)
      in if ai_family ai = AF_INET6 w2 \<and> has_IPPROTO_IPV6 w2
         then record_event (SetSockOpt s IPV6_V6ONLY) w2 else w2)"

text \<open>The loop over \<^verbatim>\<open>infos\<close> inside the \<^verbatim>\<open>try\<close> of \<^verbatim>\<open>start_serving\<close>, with the
  list \<^verbatim>\<open>sockets\<close> it appends to.\<close>

fun open_loop :: "bool \<Rightarrow> addrinfo list \<Rightarrow> nat list \<Rightarrow> net \<Rightarrow> unit outcome \<times> nat list \<times> net" where
  "open_loop reuse_address [] sockets w = (Return (), sockets, w)"
| "open_loop reuse_address (ai # ais) sockets w =
     (case socket_factory w ai of
        (Raise e, w1) \<Rightarrow> (Raise e, sockets, w1)
      | (Return s, w1) \<Rightarrow>
          (let sockets1 = sockets @ [s];
               w3 = set_options reuse_address ai s w1
           in case bind_error w3 (ai_sockaddr ai) of
                None \<Rightarrow>
                  open_loop reuse_address ais sockets1 (record_event (Bound s (ai_sockaddr ai)) w3)
              | Some err \<Rightarrow>
                  if is_SocketError Plain err then
                    (case new_bind_error (ai_sockaddr ai) err of
                       Raise e \<Rightarrow> (Raise e, sockets1, w3)
                     | Return err' \<Rightarrow> (Raise err', sockets1, w3))
                  else (Raise err, sockets1, w3)))"

text \<open>The \<^verbatim>\<open>finally\<close> clause when \<^verbatim>\<open>completed\<close> is false.\<close>

definition close_all :: "nat list \<Rightarrow> net \<Rightarrow> net" where
  "close_all sockets w = foldl (\<lambda>w s. sock_close s w) w sockets"

text \<open>The final loop: \<^verbatim>\<open>listen\<close>, \<^verbatim>\<open>setblocking(False)\<close> and the accept callback for
  each socket of the server.\<close>

definition listen_all :: "nat \<Rightarrow> nat list \<Rightarrow> net \<Rightarrow> net" where
  "listen_all backlog sockets w =
     foldl (\<lambda>w s. w\<lparr>net_log := net_log w @
                       [Listening s backlog, SetBlocking s False, AcceptReaderAdded s]\<rparr>) w sockets"

definition start_serving :: "net \<Rightarrow> serve_args \<Rightarrow> nat list outcome \<times> net" where
  "start_serving w a =
     (if s_host a \<noteq> None \<or> s_port a \<noteq> None then
        (if s_sock a \<noteq> NoSock then
           (Raise (ValueError ''host/port and sock can not be specified at the same time''), w)
         else
           (let reuse_address = (case s_reuse_address a of None \<Rightarrow> reuse_default w | Some b \<Rightarrow> b);
                host = (if s_host a = Some [] then None else s_host a)
            in case getaddrinfo w host (s_port a) of
                 Raise e \<Rightarrow> (Raise e, w)
               | Return infos \<Rightarrow>
                   if infos = [] then
                     (Raise (SocketError None ''getaddrinfo() returned empty list''), w)
                   else
                     (case open_loop reuse_address infos [] w of
                        (Raise e, sockets, w1) \<Rightarrow> (Raise e, close_all sockets w1)
                      | (Return _, sockets, w1) \<Rightarrow>
                          (Return sockets, listen_all (s_backlog a) sockets w1))))
      else (case s_sock a of
              NoSock \<Rightarrow>
                (Raise (ValueError ''host and port was not specified and no sock specified''), w)
            | OneSock s \<Rightarrow> (Return [s], listen_all (s_backlog a) [s] w)
            | SockList sockets \<Rightarrow>
                if sockets = [] then
                  (Raise (ValueError ''host and port was not specified and no sock specified''), w)
                else (Return sockets, listen_all (s_backlog a) sockets w)))"

section \<open>What follows an end of stream\<close>

text \<open>
  The chunks handed to \<^verbatim>\<open>data_received\<close>, in order, and the chunks held in
  \<^verbatim>\<open>_read_buffer\<close>.
\<close>

fun data_of :: "event \<Rightarrow> bytes list" where
  "data_of (DataReceived chunk) = [chunk]"
| "data_of _ = []"

definition delivered :: "event list \<Rightarrow> bytes list" where
  "delivered tr = concat (map data_of tr)"

definition pending :: "transport \<Rightarrow> bytes list" where
  "pending t = (case read_buffer t of None \<Rightarrow> [] | Some chunks \<Rightarrow> chunks)"

text \<open>
  A socket whose \<^verbatim>\<open>recv\<close> has returned zero bytes is at the end of its stream: every
  later \<^verbatim>\<open>recv\<close> returns zero bytes again or raises, none returns data.
\<close>

fun no_data :: "recv_result \<Rightarrow> bool" where
  "no_data (Recv data) = (data = [])"
| "no_data (RecvRaises _) = True"

definition end_of_stream :: "recv_result list \<Rightarrow> bool" where
  "end_of_stream rs = list_all no_data rs"

text \<open>
  The only methods of \<^verbatim>\<open>stream.py\<close> that call \<^verbatim>\<open>data_received\<close> or touch the
  pause flag and the read buffer are \<^verbatim>\<open>_ready_read\<close>, \<^verbatim>\<open>pause_reading\<close> and
  \<^verbatim>\<open>resume_reading\<close>. A run of them, in any order; the exception of a
  \<^verbatim>\<open>resume_reading\<close> that raises is the caller's to catch.
\<close>

datatype read_op = ReadReady | PauseReading | ResumeReading

fun read_step :: "externals \<Rightarrow> read_op \<Rightarrow> transport \<Rightarrow> transport" where
  "read_step x ReadReady t = ready_read x t"
| "read_step x PauseReading t = pause_reading t"
| "read_step x ResumeReading t = snd (resume_reading t)"

definition run_reads :: "externals \<Rightarrow> read_op list \<Rightarrow> transport \<Rightarrow> transport" where
  "run_reads x ops t = foldl (\<lambda>t op. read_step x op t) t ops"

section \<open>The reactor's write-readiness event\<close>

text \<open>
  Modelled from the spec: the reactor, which is outside the files under study. The spec:
  "register/unregister a file descriptor for read-readiness or write-readiness with a
  callback". When the socket is writable the reactor runs the callback registered with
  \<^verbatim>\<open>add_writer\<close>, if there is one.
\<close>

definition writable :: "externals \<Rightarrow> transport \<Rightarrow> transport" where
  "writable x t =
     (case writer t of
        Some ReadyWrite \<Rightarrow> snd (ready_write x t)
      | Some DoHandshake \<Rightarrow> snd (ssl_do_handshake x t)
      | _ \<Rightarrow> t)"

text \<open>What can happen to a transport from outside on its write side: a caller's
  \<^verbatim>\<open>write\<close>, whose exception the caller may catch, or the socket turning writable.\<close>

datatype io_op = CallWrite bytes | Writable

fun io_step :: "externals \<Rightarrow> io_op \<Rightarrow> transport \<Rightarrow> transport" where
  "io_step x (CallWrite data) t = snd (transport_write x data t)"
| "io_step x Writable t = writable x t"

definition run_io :: "externals \<Rightarrow> io_op list \<Rightarrow> transport \<Rightarrow> transport" where
  "run_io x ops t = foldl (\<lambda>t op. io_step x op t) t ops"

definition send_calls :: "transport \<Rightarrow> event list" where
  "send_calls t = filter is_send (trace t)"

section \<open>Reading the log of the network\<close>

text \<open>The events a call added to the log, and whether an event puts a socket into
  service (\<^verbatim>\<open>listen\<close>, or the accept callback handed to the reactor).\<close>

definition new_events :: "net \<Rightarrow> net \<Rightarrow> net_event list" where
  "new_events w w' = drop (length (net_log w)) (net_log w')"

fun is_listen :: "net_event \<Rightarrow> bool" where
  "is_listen (Listening _ _) = True"
| "is_listen (AcceptReaderAdded _) = True"
| "is_listen _ = False"

section \<open>Concrete values for the instances below\<close>

definition example_externals :: externals where
  "example_externals =
     \<lparr>WRITE_BUFFER_MAX_SIZE = 4, TRY_WRITE_AGAIN = [11, 105, 115], EWOULDBLOCK = 11,
      check_closed = (\<lambda>t. if closing t then Some (OtherError ''transport is closing'') else None)\<rparr>"

definition example_transport :: transport where
  "example_transport =
     \<lparr>kind = Plain, write_buffer = [], read_buffer = Some [],
      paused_reading = False, paused_writing = False, closing = False,
      consecutive_writes = 0, handshake_reading = False, handshake_writing = False,
      sends = [], recvs = [], handshakes = [], reader = Some ReadyRead, writer = None,
      soon = [], trace = []\<rparr>"

definition example_addrinfo :: "sockaddr \<Rightarrow> addrinfo" where
  "example_addrinfo addr =
     \<lparr>ai_family = 2, ai_socktype = 1, ai_proto = 6, ai_canonname = [], ai_sockaddr = addr\<rparr>"

text \<open>A network in which \<^verbatim>\<open>peer.example\<close> resolves to two addresses that both refuse
  the connection, \<^verbatim>\<open>twin.example\<close> to two that fail alike, \<^verbatim>\<open>nowhere.example\<close> to
  nothing, and in which port 80 of the listener's second address is taken.\<close>

definition example_net :: net where
  "example_net =
     \<lparr>getaddrinfo = (\<lambda>host port.
        if host = Some ''peer.example''
          then Return [example_addrinfo ''10.0.0.1:80'', example_addrinfo ''10.0.0.2:80'']
        else if host = Some ''twin.example''
          then Return [example_addrinfo ''10.0.0.3:80'', example_addrinfo ''10.0.0.4:80'']
        else if host = Some ''nowhere.example'' then Return []
        else if host = None
          then Return [example_addrinfo ''0.0.0.0:80'', example_addrinfo ''[::]:80'']
        else Return [example_addrinfo ''127.0.0.1:80'']),
      socket_error = (\<lambda>ai. None),
      bind_error = (\<lambda>addr. if addr = ''[::]:80''
                            then Some (SocketError (Some 98) ''Address already in use'')
                            else None),
      connect_error = (\<lambda>addr.
        if addr = ''10.0.0.1:80'' then Some (SocketError (Some 111) ''Connection refused'')
        else if addr = ''10.0.0.2:80'' then Some (SocketError (Some 113) ''No route to host'')
        else if addr = ''10.0.0.3:80'' \<or> addr = ''10.0.0.4:80''
          then Some (SocketError (Some 110) ''Connection timed out'')
        else None),
      AF_INET6 = 10, has_IPPROTO_IPV6 = True, reuse_default = True,
      next_fd = 3, net_log = []\<rparr>"

definition example_connect :: "string \<Rightarrow> connect_args" where
  "example_connect host =
     \<lparr>c_host = Some host, c_port = Some 80, c_ssl = False, c_sock = None, c_local_addr = None\<rparr>"

definition example_serve :: serve_args where
  "example_serve =
     \<lparr>s_host = Some [], s_port = Some 80, s_sock = NoSock, s_backlog = 100,
      s_reuse_address = None\<rparr>"

section \<open>Properties of writing\<close>

lemma sent_bytes_append [simp]: "sent_bytes (a @ b) = sent_bytes a @ sent_bytes b"
  by (simp add: sent_bytes_def)

lemma sent_bytes_simps [simp]:
  "sent_bytes [] = []"
  "sent_bytes (e # tr) = sent_of e @ sent_bytes tr"
  by (simp_all add: sent_bytes_def)









lemma abort_conserves [simp]:
  "write_buffer (abort f t) = write_buffer t" "sent_bytes (trace (abort f t)) = sent_bytes (trace t)"
  by (simp_all add: abort_def Let_def remove_writer_def remove_reader_def)

lemma reactor_conserves [simp]:
  "write_buffer (remove_writer t) = write_buffer t" "trace (remove_writer t) = trace t"
  "write_buffer (add_writer cb t) = write_buffer t" "trace (add_writer cb t) = trace t"
  "write_buffer (call_soon cb t) = write_buffer t" "trace (call_soon cb t) = trace t"
  by (simp_all add: remove_writer_def add_writer_def call_soon_def)













text \<open>
  C10. A \<^verbatim>\<open>write\<close> with an empty payload is a no-op on every transport, whatever its
  state and whatever the closed check would do: it returns normally and leaves every
  attribute, the reactor registrations, the scheduled callbacks and the trace (so no
  send) as they were.
\<close>

theorem write_empty_noop: "transport_write x [] t = (Return (), t)"
  by (simp add: transport_write_def)

section \<open>The consecutive-write guard\<close>

lemma sock_send_frame:
  "sock_send x t data = (r, t1) \<Longrightarrow> t1\<lparr>sends := sends t, trace := trace t\<rparr> = t"
  by (auto simp: sock_send_def split: list.splits send_result.splits)

text \<open>The drain touches the queue, the socket and the trace, and nothing else.\<close>

lemma write_loop_frame:
  "write_loop x t tot = (r, t') \<Longrightarrow>
     t'\<lparr>write_buffer := write_buffer t, sends := sends t, trace := trace t\<rparr> = t"
proof (induction x t tot arbitrary: r t' rule: write_loop.induct)
  case (1 x t tot)
  show ?case
  proof (cases "write_buffer t")
    case Nil
    with "1.prems" have "t' = t" by (simp add: write_loop.simps)
    then show ?thesis by simp
  next
    case (Cons chunk rest)
    obtain o1 t1 where ss: "sock_send x t chunk = (o1, t1)" by (cases "sock_send x t chunk")
    note t1 = sock_send_frame[OF ss]
    have stop: "t' = t1 \<Longrightarrow> ?thesis"
      using t1 by (cases t; cases t1; simp)
    show ?thesis
    proof (cases o1)
      case (Raise e)
      with "1.prems" Cons ss have "t' = t1" by (auto simp: write_loop.simps split: if_splits)
      then show ?thesis by (rule stop)
    next
      case (Return sent)
      show ?thesis
      proof (cases "sent = 0")
        case True
        with "1.prems" Cons ss Return have "t' = t1" by (auto simp: write_loop.simps)
        then show ?thesis by (rule stop)
      next
        case False
        show ?thesis
        proof (cases "merge_prefix (write_buffer t1) sent")
          case Nil
          with "1.prems" Cons ss Return False have "t' = t1" by (auto simp: write_loop.simps)
          then show ?thesis by (rule stop)
        next
          case (Cons c rest')
          have wl: "write_loop x (t1\<lparr>write_buffer := rest'\<rparr>) (tot + sent) = (r, t')"
            using "1.prems" \<open>write_buffer t = chunk # rest\<close> ss Return False Cons
            by (simp add: write_loop.simps[of x t])
          from "1.IH"[OF \<open>write_buffer t = chunk # rest\<close> ss[symmetric] Return False Cons wl] t1
          show ?thesis by (cases t; cases t1; cases t'; simp)
        qed
      qed
    qed
  qed
qed

lemma write_loop_fields:
  assumes "write_loop x t tot = (r, t')"
  shows "consecutive_writes t' = consecutive_writes t" "paused_writing t' = paused_writing t"
    "closing t' = closing t" "writer t' = writer t" "reader t' = reader t" "kind t' = kind t"
  using write_loop_frame[OF assms] by (cases t; cases t'; simp)+

lemma ready_write_consecutive_writes:
  "consecutive_writes (snd (ready_write x t)) = consecutive_writes t"
proof (cases "paused_writing t")
  case True
  then show ?thesis by (simp add: ready_write_def)
next
  case False
  obtain r t1 where wl: "write_loop x t 0 = (r, t1)" by (cases "write_loop x t 0")
  with False write_loop_fields(1)[OF wl] show ?thesis
    by (cases r)
       (auto simp: ready_write_def Let_def abort_def remove_writer_def remove_reader_def call_soon_def)
qed

text \<open>After an abort the reactor holds no callback for the socket.\<close>

lemma abort_fields [simp]:
  "writer (abort f t) = None" "reader (abort f t) = None"
  "consecutive_writes (abort f t) = consecutive_writes t"
  "paused_writing (abort f t) = paused_writing t"
  "send_calls (abort f t) = send_calls t"
  "filter is_send (trace (abort f t)) = filter is_send (trace t)"
  by (simp_all add: abort_def Let_def remove_writer_def remove_reader_def send_calls_def)

lemma abort_delivers:
  "\<not> connection_lost_delivered t \<Longrightarrow>
     trace (abort f t) = trace t @ [SockClosed, ConnectionLost f]"
  by (simp add: abort_def Let_def remove_writer_def remove_reader_def connection_lost_delivered_def)

text \<open>A \<^verbatim>\<open>write\<close> that finds data queued calls neither \<^verbatim>\<open>send\<close> nor the reactor.\<close>

lemma write_queued_quiet:
  assumes "write_buffer t \<noteq> []" and "writer t = None"
  shows "send_calls (snd (transport_write x data t)) = send_calls t
       \<and> write_buffer (snd (transport_write x data t)) \<noteq> []
       \<and> writer (snd (transport_write x data t)) = None"
  using assms
  by (auto simp: transport_write_def Let_def send_calls_def split: option.splits)

lemma writable_unregistered: "writer t = None \<Longrightarrow> writable x t = t"
  by (simp add: writable_def)

lemma run_io_quiet:
  "write_buffer t \<noteq> [] \<Longrightarrow> writer t = None \<Longrightarrow> send_calls (run_io x ops t) = send_calls t"
proof (induction ops arbitrary: t)
  case Nil
  then show ?case by (simp add: run_io_def)
next
  case (Cons op ops)
  have step: "send_calls (io_step x op t) = send_calls t \<and> write_buffer (io_step x op t) \<noteq> []
      \<and> writer (io_step x op t) = None"
  proof (cases op)
    case (CallWrite data)
    then show ?thesis using write_queued_quiet[OF Cons.prems] by simp
  next
    case Writable
    then show ?thesis using Cons.prems by (simp add: writable_unregistered)
  qed
  have "run_io x (op # ops) t = run_io x ops (io_step x op t)" by (simp add: run_io_def)
  with Cons.IH[of "io_step x op t"] step show ?case by simp
qed

text \<open>While writing is paused, a \<^verbatim>\<open>write\<close> that is accepted only enqueues: the
  counter, the trace and the registrations stay as they are.\<close>

lemma write_paused_only_enqueues:
  assumes "data \<noteq> []" and "check_closed x t = None" and "paused_writing t"
    and "0 < WRITE_BUFFER_MAX_SIZE x"
  shows "transport_write x data t =
           (Return (), t\<lparr>write_buffer := write_buffer t @
                             (if WRITE_BUFFER_MAX_SIZE x < length data
                              then pieces (WRITE_BUFFER_MAX_SIZE x) data else [data])\<rparr>)"
  using assms by (simp add: transport_write_def Let_def)

text \<open>
  C7. On a transport that accepts the \<^verbatim>\<open>write\<close> (the closed check passes) and whose
  writing is not paused, a \<^verbatim>\<open>write\<close> of a non-empty payload that finds data queued
  returns normally, adds one to \<^verbatim>\<open>consecutive_writes\<close> and calls no \<^verbatim>\<open>send\<close>.
  While the counter stays at or below \<^verbatim>\<open>MAX_CONSECUTIVE_WRITES\<close>, which is 500, that
  is all it does: the payload is queued and nothing else changes. When the counter exceeds
  the threshold the transport is aborted with \<^verbatim>\<open>TooManyConsecutiveWrite\<close>,
  \<^verbatim>\<open>connection_lost\<close> receives that failure, and whatever writes and write-readiness
  events follow, no \<^verbatim>\<open>send\<close> is called again. A \<^verbatim>\<open>write\<close> that finds the queue empty
  leaves the counter at zero.
\<close>

theorem consecutive_writes_guard:
  assumes "data \<noteq> []" and "check_closed x t = None" and "\<not> paused_writing t"
    and "0 < WRITE_BUFFER_MAX_SIZE x"
  shows "(write_buffer t \<noteq> [] \<longrightarrow>
            fst (transport_write x data t) = Return ()
          \<and> consecutive_writes (snd (transport_write x data t)) = consecutive_writes t + 1
          \<and> send_calls (snd (transport_write x data t)) = send_calls t
          \<and> (consecutive_writes t + 1 \<le> MAX_CONSECUTIVE_WRITES \<longrightarrow>
                snd (transport_write x data t) =
                  t\<lparr>write_buffer := write_buffer t @
                        (if WRITE_BUFFER_MAX_SIZE x < length data
                         then pieces (WRITE_BUFFER_MAX_SIZE x) data else [data]),
                      consecutive_writes := consecutive_writes t + 1\<rparr>)
          \<and> (MAX_CONSECUTIVE_WRITES < consecutive_writes t + 1 \<longrightarrow>
                snd (transport_write x data t) =
                  abort TooManyConsecutiveWrite
                    (t\<lparr>write_buffer := write_buffer t @
                          (if WRITE_BUFFER_MAX_SIZE x < length data
                           then pieces (WRITE_BUFFER_MAX_SIZE x) data else [data]),
                        consecutive_writes := consecutive_writes t + 1\<rparr>)
              \<and> (\<not> connection_lost_delivered t \<longrightarrow>
                    trace (snd (transport_write x data t))
                      = trace t @ [SockClosed, ConnectionLost TooManyConsecutiveWrite])
              \<and> (\<forall>ops. send_calls (run_io x ops (snd (transport_write x data t)))
                          = send_calls (snd (transport_write x data t)))))
       \<and> (write_buffer t = [] \<longrightarrow>
            fst (transport_write x data t) = Return ()
          \<and> consecutive_writes (snd (transport_write x data t)) = 0)
       \<and> MAX_CONSECUTIVE_WRITES = 500"
proof (intro conjI impI)
  assume q: "write_buffer t \<noteq> []"
  let ?t2 = "t\<lparr>write_buffer := write_buffer t @
                          (if WRITE_BUFFER_MAX_SIZE x < length data
                           then pieces (WRITE_BUFFER_MAX_SIZE x) data else [data]),
                        consecutive_writes := consecutive_writes t + 1\<rparr>"
  have w: "transport_write x data t =
      (Return (), if MAX_CONSECUTIVE_WRITES < consecutive_writes t + 1
                  then abort TooManyConsecutiveWrite ?t2 else ?t2)"
    using assms q by (simp add: transport_write_def Let_def)
  show "fst (transport_write x data t) = Return ()" by (simp add: w)
  show "consecutive_writes (snd (transport_write x data t)) = consecutive_writes t + 1"
    by (simp add: w)
  show "send_calls (snd (transport_write x data t)) = send_calls t"
    by (simp add: w) (simp add: send_calls_def)
  show "snd (transport_write x data t) = ?t2"
    if "consecutive_writes t + 1 \<le> MAX_CONSECUTIVE_WRITES"
    using that by (simp add: w)
  assume over: "MAX_CONSECUTIVE_WRITES < consecutive_writes t + 1"
  show ab: "snd (transport_write x data t) = abort TooManyConsecutiveWrite ?t2"
    using over by (simp add: w)
  show "trace (snd (transport_write x data t))
          = trace t @ [SockClosed, ConnectionLost TooManyConsecutiveWrite]"
    if "\<not> connection_lost_delivered t"
  proof -
    from that have "\<not> connection_lost_delivered ?t2" by (simp add: connection_lost_delivered_def)
    from abort_delivers[OF this] show ?thesis by (simp add: ab)
  qed
  have "write_buffer (abort TooManyConsecutiveWrite ?t2) \<noteq> []"
    using q by simp
  then show "\<forall>ops. send_calls (run_io x ops (snd (transport_write x data t)))
                          = send_calls (snd (transport_write x data t))"
    by (simp add: ab run_io_quiet)
next
  assume e: "write_buffer t = []"
  show "fst (transport_write x data t) = Return ()"
    using assms e by (simp add: transport_write_def Let_def)
  show "consecutive_writes (snd (transport_write x data t)) = 0"
    using assms e
    by (simp add: transport_write_def Let_def ready_write_consecutive_writes
          add_writer_def call_soon_def)
next
  show "MAX_CONSECUTIVE_WRITES = 500" by (simp add: MAX_CONSECUTIVE_WRITES_def)
qed

theorem consecutive_writes_guard_witness:
  "snd (transport_write example_externals ''b''
      (example_transport\<lparr>write_buffer := [''a''], consecutive_writes := 499\<rparr>))
     = example_transport\<lparr>write_buffer := [''a'', ''b''], consecutive_writes := 500\<rparr>
   \<and> consecutive_writes (snd (transport_write example_externals ''b''
      (example_transport\<lparr>write_buffer := [''a''], consecutive_writes := 500\<rparr>))) = 501
   \<and> trace (snd (transport_write example_externals ''b''
      (example_transport\<lparr>write_buffer := [''a''], consecutive_writes := 500\<rparr>)))
       = [SockClosed, ConnectionLost TooManyConsecutiveWrite]
   \<and> send_calls (run_io example_externals [CallWrite ''c'', Writable, CallWrite ''d'']
        (snd (transport_write example_externals ''b''
          (example_transport\<lparr>write_buffer := [''a''], consecutive_writes := 500\<rparr>)))) = []
   \<and> consecutive_writes (snd (transport_write example_externals ''b''
        (example_transport\<lparr>consecutive_writes := 7\<rparr>))) = 0"
proof -
  let ?s = "example_transport\<lparr>write_buffer := [''a''], consecutive_writes := 499\<rparr>"
  let ?t = "example_transport\<lparr>write_buffer := [''a''], consecutive_writes := 500\<rparr>"
  let ?u = "example_transport\<lparr>consecutive_writes := 7\<rparr>"
  have d: "''b'' \<noteq> []" by simp
  have m: "0 < WRITE_BUFFER_MAX_SIZE example_externals" by (simp add: example_externals_def)
  have cs: "check_closed example_externals ?s = None"
    by (simp add: example_externals_def example_transport_def)
  have ct: "check_closed example_externals ?t = None"
    by (simp add: example_externals_def example_transport_def)
  have cu: "check_closed example_externals ?u = None"
    by (simp add: example_externals_def example_transport_def)
  have ps: "\<not> paused_writing ?s" by (simp add: example_transport_def)
  have pt: "\<not> paused_writing ?t" by (simp add: example_transport_def)
  have pu: "\<not> paused_writing ?u" by (simp add: example_transport_def)
  have qs: "write_buffer ?s \<noteq> []" by simp
  have qt: "write_buffer ?t \<noteq> []" by simp
  have qu: "write_buffer ?u = []" by (simp add: example_transport_def)
  have under: "consecutive_writes ?s + 1 \<le> MAX_CONSECUTIVE_WRITES"
    by (simp add: MAX_CONSECUTIVE_WRITES_def)
  have over: "MAX_CONSECUTIVE_WRITES < consecutive_writes ?t + 1"
    by (simp add: MAX_CONSECUTIVE_WRITES_def)
  have live: "\<not> connection_lost_delivered ?t"
    by (simp add: connection_lost_delivered_def example_transport_def)
  have st: "send_calls ?t = []" "trace ?t = []"
    by (simp_all add: send_calls_def example_transport_def)
  note gs = consecutive_writes_guard[OF d cs ps m]
  note gt = consecutive_writes_guard[OF d ct pt m]
  note gu = consecutive_writes_guard[OF d cu pu m]
  from gs qs under
  have "snd (transport_write example_externals ''b'' ?s)
          = ?s\<lparr>write_buffer := write_buffer ?s @
                  (if WRITE_BUFFER_MAX_SIZE example_externals < length ''b''
                   then pieces (WRITE_BUFFER_MAX_SIZE example_externals) ''b'' else [''b'']),
                consecutive_writes := consecutive_writes ?s + 1\<rparr>"
    by blast
  then have z: "snd (transport_write example_externals ''b'' ?s)
          = example_transport\<lparr>write_buffer := [''a'', ''b''], consecutive_writes := 500\<rparr>"
    by (simp add: example_externals_def)
  from gt qt
  have "consecutive_writes (snd (transport_write example_externals ''b'' ?t))
          = consecutive_writes ?t + 1"
    by blast
  then have a: "consecutive_writes (snd (transport_write example_externals ''b'' ?t)) = 501"
    by simp
  from gt qt over live
  have "trace (snd (transport_write example_externals ''b'' ?t))
          = trace ?t @ [SockClosed, ConnectionLost TooManyConsecutiveWrite]"
    by blast
  then have b: "trace (snd (transport_write example_externals ''b'' ?t))
             = [SockClosed, ConnectionLost TooManyConsecutiveWrite]"
    using st(2) by simp
  from gt qt have "send_calls (snd (transport_write example_externals ''b'' ?t)) = send_calls ?t"
    by blast
  then have s0: "send_calls (snd (transport_write example_externals ''b'' ?t)) = []"
    using st(1) by simp
  from gt qt over
  have "\<forall>ops. send_calls (run_io example_externals ops (snd (transport_write example_externals ''b'' ?t)))
          = send_calls (snd (transport_write example_externals ''b'' ?t))"
    by blast
  then have "send_calls (run_io example_externals [CallWrite ''c'', Writable, CallWrite ''d'']
          (snd (transport_write example_externals ''b'' ?t)))
        = send_calls (snd (transport_write example_externals ''b'' ?t))"
    by (rule spec)
  then have c: "send_calls (run_io example_externals [CallWrite ''c'', Writable, CallWrite ''d'']
          (snd (transport_write example_externals ''b'' ?t))) = []"
    using s0 by (rule trans)
  from gu qu have e: "consecutive_writes (snd (transport_write example_externals ''b'' ?u)) = 0"
    by blast
  from z a b c e show ?thesis by blast
qed

section \<open>Properties of reading\<close>

lemma delivered_append [simp]: "delivered (a @ b) = delivered a @ delivered b"
  by (simp add: delivered_def)

lemma delivered_simps [simp]:
  "delivered [] = []" "delivered (e # tr) = data_of e @ delivered tr"
  by (simp_all add: delivered_def)

lemma delivered_chunks [simp]: "delivered (map DataReceived chunks) = chunks"
  by (induction chunks) simp_all

lemma abort_read_fields [simp]:
  "read_buffer (abort f t) = read_buffer t" "paused_reading (abort f t) = paused_reading t"
  "recvs (abort f t) = recvs t" "delivered (trace (abort f t)) = delivered (trace t)"
  by (simp_all add: abort_def Let_def remove_writer_def remove_reader_def)

text \<open>At the end of the stream a read-ready invocation delivers and buffers nothing.\<close>

lemma read_loop_at_end:
  assumes "end_of_stream (recvs t)" and "read_loop x t passes = (r, t')"
  shows "delivered (trace t') = delivered (trace t) \<and> read_buffer t' = read_buffer t
       \<and> end_of_stream (recvs t')"
proof (cases "recvs t")
  case Nil
  with assms show ?thesis
    by (auto simp: read_loop.simps[of x t] sock_recv_def split: if_splits)
next
  case (Cons a rs)
  show ?thesis
  proof (cases a)
    case (Recv data)
    with Cons assms(1) have "data = []" by (simp add: end_of_stream_def)
    with Cons Recv assms show ?thesis
      by (auto simp: read_loop.simps[of x t] sock_recv_def close_def end_of_stream_def
               split: if_splits)
  next
    case (RecvRaises e)
    with Cons assms show ?thesis
      by (auto simp: read_loop.simps[of x t] sock_recv_def end_of_stream_def split: if_splits)
  qed
qed

lemma ready_read_at_end:
  assumes "end_of_stream (recvs t)"
  shows "delivered (trace (ready_read x t)) = delivered (trace t)
       \<and> read_buffer (ready_read x t) = read_buffer t
       \<and> end_of_stream (recvs (ready_read x t))"
proof -
  obtain r t' where rl: "read_loop x t 0 = (r, t')" by (cases "read_loop x t 0")
  from read_loop_at_end[OF assms rl] rl show ?thesis
    by (cases r) (auto simp: ready_read_def Let_def)
qed

text \<open>What a step after the end of the stream hands to \<^verbatim>\<open>data_received\<close> comes out of
  the read buffer, from its front.\<close>

lemma read_step_at_end:
  assumes "end_of_stream (recvs t)"
  shows "\<exists>extra. delivered (trace (read_step x op t)) = delivered (trace t) @ extra
           \<and> pending t = extra @ pending (read_step x op t)
           \<and> end_of_stream (recvs (read_step x op t))"
proof (cases op)
  case ReadReady
  with ready_read_at_end[OF assms, of x] show ?thesis by (simp add: pending_def)
next
  case PauseReading
  with assms show ?thesis by (simp add: pause_reading_def pending_def)
next
  case ResumeReading
  show ?thesis
  proof (cases "paused_reading t")
    case False
    with ResumeReading assms show ?thesis by (simp add: resume_reading_def)
  next
    case True
    show ?thesis
    proof (cases "read_buffer t")
      case None
      with True ResumeReading assms show ?thesis
        by (simp add: resume_reading_def pending_def)
    next
      case (Some chunks)
      with True ResumeReading assms show ?thesis
        by (simp add: resume_reading_def pending_def)
    qed
  qed
qed

lemma run_reads_at_end:
  "end_of_stream (recvs t) \<Longrightarrow>
     \<exists>extra. delivered (trace (run_reads x ops t)) = delivered (trace t) @ extra
        \<and> pending t = extra @ pending (run_reads x ops t)"
proof (induction ops arbitrary: t)
  case Nil
  then show ?case by (simp add: run_reads_def)
next
  case (Cons op ops)
  from read_step_at_end[OF Cons.prems, of x op] obtain e1 where e1:
    "delivered (trace (read_step x op t)) = delivered (trace t) @ e1"
    "pending t = e1 @ pending (read_step x op t)"
    "end_of_stream (recvs (read_step x op t))"
    by blast
  from Cons.IH[OF e1(3)] obtain e2 where e2:
    "delivered (trace (run_reads x ops (read_step x op t)))
       = delivered (trace (read_step x op t)) @ e2"
    "pending (read_step x op t) = e2 @ pending (run_reads x ops (read_step x op t))"
    by blast
  have "run_reads x (op # ops) t = run_reads x ops (read_step x op t)"
    by (simp add: run_reads_def)
  with e1 e2 show ?case by (intro exI[of _ "e1 @ e2"]) simp
qed

text \<open>
  C8, as amended. A read-ready invocation whose first \<^verbatim>\<open>recv\<close> returns zero bytes calls
  \<^verbatim>\<open>eof_received\<close> once, then \<^verbatim>\<open>close\<close>, and ends without a \<^verbatim>\<open>data_received\<close>.
  The socket being at the end of its stream, whatever read-ready invocations and calls of
  \<^verbatim>\<open>pause_reading\<close> and \<^verbatim>\<open>resume_reading\<close> follow, the chunks handed to
  \<^verbatim>\<open>data_received\<close> afterwards are chunks that were in the read buffer at that moment,
  from its front and in order, the rest of them still being in the buffer: none at all
  when the buffer was empty. When reading was paused, the \<^verbatim>\<open>resume_reading\<close> that
  follows delivers exactly the buffered chunks.
\<close>

theorem eof_on_first_receive:
  assumes "recvs t = Recv [] # rest" and "end_of_stream rest"
  shows "ready_read x t = close (t\<lparr>recvs := rest, trace := trace t @ [EofReceived]\<rparr>)
       \<and> trace (ready_read x t) = trace t @ [EofReceived, CloseCalled]
       \<and> closing (ready_read x t)
       \<and> (\<forall>ops. \<exists>extra.
             delivered (trace (run_reads x ops (ready_read x t))) = delivered (trace t) @ extra
           \<and> pending t = extra @ pending (run_reads x ops (ready_read x t)))
       \<and> (\<forall>ops. pending t = [] \<longrightarrow>
             delivered (trace (run_reads x ops (ready_read x t))) = delivered (trace t))
       \<and> (\<forall>chunks. paused_reading t \<and> read_buffer t = Some chunks \<longrightarrow>
             fst (resume_reading (ready_read x t)) = Return ()
           \<and> trace (snd (resume_reading (ready_read x t)))
               = trace t @ [EofReceived, CloseCalled] @ map DataReceived chunks)"
proof -
  have "sock_recv x t = (Return [], t\<lparr>recvs := rest\<rparr>)"
    using assms(1) by (simp add: sock_recv_def)
  then have "read_loop x t 0 = (None, close (t\<lparr>recvs := rest, trace := trace t @ [EofReceived]\<rparr>))"
    by (simp add: read_loop.simps[of x t 0])
  then have rr: "ready_read x t = close (t\<lparr>recvs := rest, trace := trace t @ [EofReceived]\<rparr>)"
    by (simp add: ready_read_def)
  have tr: "trace (ready_read x t) = trace t @ [EofReceived, CloseCalled]"
    and cl: "closing (ready_read x t)"
    by (simp_all add: rr close_def)
  have es: "end_of_stream (recvs (ready_read x t))" using assms(2) by (simp add: rr close_def)
  have same: "delivered (trace (ready_read x t)) = delivered (trace t)"
    "pending (ready_read x t) = pending t"
    by (simp_all add: rr close_def pending_def)
  have later: "\<exists>extra.
             delivered (trace (run_reads x ops (ready_read x t))) = delivered (trace t) @ extra
           \<and> pending t = extra @ pending (run_reads x ops (ready_read x t))" for ops
    using run_reads_at_end[OF es, of x ops] same by simp
  have none: "delivered (trace (run_reads x ops (ready_read x t))) = delivered (trace t)"
    if "pending t = []" for ops
    using later[of ops] that by auto
  have res: "fst (resume_reading (ready_read x t)) = Return ()
           \<and> trace (snd (resume_reading (ready_read x t)))
               = trace t @ [EofReceived, CloseCalled] @ map DataReceived chunks"
    if "paused_reading t \<and> read_buffer t = Some chunks" for chunks
    using that by (simp add: rr close_def resume_reading_def)
  from rr tr cl later none res show ?thesis by blast
qed

theorem eof_on_first_receive_witness:
  "ready_read example_externals
     (example_transport\<lparr>paused_reading := True, read_buffer := Some [''x'', ''y''],
        recvs := [Recv [], Recv []]\<rparr>)
     = example_transport\<lparr>paused_reading := True, read_buffer := Some [''x'', ''y''],
         recvs := [Recv []], closing := True, trace := [EofReceived, CloseCalled]\<rparr>
   \<and> trace (snd (resume_reading (ready_read example_externals
        (example_transport\<lparr>paused_reading := True, read_buffer := Some [''x'', ''y''],
           recvs := [Recv [], Recv []]\<rparr>))))
     = [EofReceived, CloseCalled, DataReceived ''x'', DataReceived ''y'']
   \<and> delivered (trace (run_reads example_externals [ReadReady, PauseReading, ResumeReading, ReadReady]
        (ready_read example_externals (example_transport\<lparr>recvs := [Recv [], Recv []]\<rparr>)))) = []"
proof -
  let ?t = "example_transport\<lparr>paused_reading := True, read_buffer := Some [''x'', ''y''],
        recvs := [Recv [], Recv []]\<rparr>"
  let ?u = "example_transport\<lparr>recvs := [Recv [], Recv []]\<rparr>"
  have rt: "recvs ?t = Recv [] # [Recv []]" and ru: "recvs ?u = Recv [] # [Recv []]" by simp_all
  have es: "end_of_stream [Recv []]" by (simp add: end_of_stream_def)
  note gt = eof_on_first_receive[OF rt es, of example_externals]
  note gu = eof_on_first_receive[OF ru es, of example_externals]
  from gt have a: "ready_read example_externals ?t
      = close (?t\<lparr>recvs := [Recv []], trace := trace ?t @ [EofReceived]\<rparr>)"
    by blast
  have pt: "paused_reading ?t \<and> read_buffer ?t = Some [''x'', ''y'']" by simp
  from gt pt have b: "trace (snd (resume_reading (ready_read example_externals ?t)))
      = trace ?t @ [EofReceived, CloseCalled] @ map DataReceived [''x'', ''y'']"
    by blast
  have pu: "pending ?u = []" by (simp add: pending_def example_transport_def)
  from gu pu have c: "delivered (trace (run_reads example_externals
        [ReadReady, PauseReading, ResumeReading, ReadReady] (ready_read example_externals ?u)))
      = delivered (trace ?u)"
    by blast
  from a b c show ?thesis by (simp add: close_def example_transport_def)
qed

text \<open>
  C8 as stated fails on a transport whose reading is paused with a chunk buffered: the
  zero-byte receive gives \<^verbatim>\<open>eof_received\<close> and \<^verbatim>\<open>close\<close>, and the \<^verbatim>\<open>resume_reading\<close>
  that follows still hands the buffered chunk to \<^verbatim>\<open>data_received\<close>.
\<close>

theorem data_received_after_eof_counterexample:
  "trace (snd (resume_reading (ready_read example_externals
      (example_transport\<lparr>paused_reading := True, read_buffer := Some [''x''],
         recvs := [Recv []]\<rparr>))))
   = [EofReceived, CloseCalled, DataReceived ''x'']"
  by (simp add: ready_read_def read_loop.simps sock_recv_def close_def resume_reading_def
        example_transport_def)

text \<open>
  C2 fails on the code. \<^verbatim>\<open>resume_reading\<close> leaves \<^verbatim>\<open>_read_buffer\<close> at \<^verbatim>\<open>None\<close>, so
  in the second pause a chunk that arrives cannot be appended: the read-ready callback
  aborts the transport with the \<^verbatim>\<open>AttributeError\<close>, the chunk is never delivered, and
  \<^verbatim>\<open>resume_reading\<close> raises \<^verbatim>\<open>TypeError\<close>.
\<close>

theorem second_pause_loses_chunk:
  "ready_read example_externals
     ((pause_reading (snd (resume_reading (pause_reading example_transport))))
        \<lparr>recvs := [Recv ''x'']\<rparr>)
   = example_transport\<lparr>paused_reading := True, read_buffer := None, reader := None,
       trace := [SockClosed,
                 ConnectionLost (AttributeError ''NoneType object has no attribute append'')]\<rparr>
   \<and> resume_reading (example_transport\<lparr>paused_reading := True, read_buffer := None, reader := None,
       trace := [SockClosed,
                 ConnectionLost (AttributeError ''NoneType object has no attribute append'')]\<rparr>)
   = (Raise (TypeError ''NoneType object is not iterable''),
      example_transport\<lparr>paused_reading := False, read_buffer := None, reader := None,
       trace := [SockClosed,
                 ConnectionLost (AttributeError ''NoneType object has no attribute append'')]\<rparr>)"
  by (simp add: ready_read_def read_loop.simps sock_recv_def resume_reading_def pause_reading_def
        abort_def Let_def remove_reader_def remove_writer_def connection_lost_delivered_def
        example_transport_def)

text \<open>The same from any state, with nothing arriving at all: after one pause and resume,
  the next pause and resume raises.\<close>

lemma second_resume_raises:
  "fst (resume_reading (pause_reading (snd (resume_reading (pause_reading t)))))
     = Raise (TypeError ''NoneType object is not iterable'')"
  by (simp add: resume_reading_def pause_reading_def Let_def split: option.splits)

section \<open>Properties of the TLS handshake\<close>

lemma sock_do_handshake_done:
  "handshakes t = HandshakeDone # rest \<Longrightarrow>
     sock_do_handshake x t = (Return (), t\<lparr>handshakes := rest\<rparr>)"
  by (simp add: sock_do_handshake_def)

lemma sock_do_handshake_raises:
  "handshakes t = HandshakeRaises e # rest \<Longrightarrow>
     sock_do_handshake x t = (Raise e, t\<lparr>handshakes := rest\<rparr>)"
  by (simp add: sock_do_handshake_def)

text \<open>
  C4, as amended. When the handshake succeeds, \<^verbatim>\<open>_ready_read\<close> becomes the reader;
  \<^verbatim>\<open>_ready_write\<close> becomes the writer exactly when the handshake was not waiting to
  read, and otherwise the writer stays as it was; both handshake flags are cleared; and
  \<^verbatim>\<open>connection_made\<close> is appended to the callbacks scheduled with \<^verbatim>\<open>call_soon\<close>,
  while the trace of protocol callbacks is unchanged, so nothing is called synchronously.
\<close>

theorem handshake_success:
  assumes "handshakes t = HandshakeDone # rest"
  shows "fst (ssl_do_handshake x t) = Return ()
       \<and> reader (snd (ssl_do_handshake x t)) = Some ReadyRead
       \<and> writer (snd (ssl_do_handshake x t))
           = (if handshake_reading t then writer t else Some ReadyWrite)
       \<and> \<not> handshake_reading (snd (ssl_do_handshake x t))
       \<and> \<not> handshake_writing (snd (ssl_do_handshake x t))
       \<and> soon (snd (ssl_do_handshake x t)) = soon t @ [ProtoConnectionMade]
       \<and> trace (snd (ssl_do_handshake x t)) = trace t"
  using sock_do_handshake_done[OF assms, of x]
  by (simp add: ssl_do_handshake_def Let_def add_reader_def remove_reader_def add_writer_def
        remove_writer_def call_soon_def)

theorem handshake_success_witness:
  "reader (snd (ssl_do_handshake example_externals
      (example_transport\<lparr>kind := Tls, write_buffer := [''a''], handshake_reading := True,
         reader := Some DoHandshake, handshakes := [HandshakeDone]\<rparr>))) = Some ReadyRead
   \<and> writer (snd (ssl_do_handshake example_externals
      (example_transport\<lparr>kind := Tls, write_buffer := [''a''], handshake_reading := True,
         reader := Some DoHandshake, handshakes := [HandshakeDone]\<rparr>))) = None
   \<and> soon (snd (ssl_do_handshake example_externals
      (example_transport\<lparr>kind := Tls, write_buffer := [''a''], handshake_reading := True,
         reader := Some DoHandshake, handshakes := [HandshakeDone]\<rparr>))) = [ProtoConnectionMade]
   \<and> trace (snd (ssl_do_handshake example_externals
      (example_transport\<lparr>kind := Tls, write_buffer := [''a''], handshake_reading := True,
         reader := Some DoHandshake, handshakes := [HandshakeDone]\<rparr>))) = []"
proof -
  let ?t = "example_transport\<lparr>kind := Tls, write_buffer := [''a''], handshake_reading := True,
         reader := Some DoHandshake, handshakes := [HandshakeDone]\<rparr>"
  have h: "handshakes ?t = HandshakeDone # []" by simp
  from handshake_success[OF h, of example_externals] show ?thesis
    by (simp add: example_transport_def)
qed

text \<open>
  C4 as stated fails on a transport whose handshake succeeds at the first attempt: its
  write queue is empty, and \<^verbatim>\<open>_ready_write\<close> is registered as the writer all the same.
\<close>

theorem handshake_writer_counterexample:
  "write_buffer (example_transport\<lparr>kind := Tls, reader := None, handshakes := [HandshakeDone]\<rparr>) = []
   \<and> writer (snd (ssl_do_handshake example_externals
        (example_transport\<lparr>kind := Tls, reader := None, handshakes := [HandshakeDone]\<rparr>)))
       = Some ReadyWrite"
  by (simp add: ssl_do_handshake_def sock_do_handshake_def Let_def add_reader_def
        add_writer_def call_soon_def example_transport_def)

text \<open>
  C3 fails on the code. A handshake that fails with an \<^verbatim>\<open>SSLError\<close> that is neither
  want-read nor want-write (here \<^verbatim>\<open>SSL_ERROR_EOF\<close>, 8) is raised again inside the
  \<^verbatim>\<open>except self.SocketError\<close> handler and leaves \<^verbatim>\<open>_do_handshake\<close>: \<^verbatim>\<open>abort\<close> is not
  reached, the registrations stay, and \<^verbatim>\<open>connection_lost\<close> is not called.
\<close>

theorem fatal_handshake_escapes:
  "ssl_do_handshake example_externals
     (example_transport\<lparr>kind := Tls, reader := None,
        handshakes := [HandshakeRaises (SSLError 8 ''EOF occurred in violation of protocol'')]\<rparr>)
   = (Raise (SSLError 8 ''EOF occurred in violation of protocol''),
      example_transport\<lparr>kind := Tls, reader := None, handshakes := []\<rparr>)
   \<and> \<not> connection_lost_delivered (example_transport\<lparr>kind := Tls, reader := None, handshakes := []\<rparr>)"
  by (simp add: ssl_do_handshake_def sock_do_handshake_def SSL_ERROR_WANT_READ_def
        SSL_ERROR_WANT_WRITE_def SSLV3_ALERT_CERTIFICATE_UNKNOWN_def SSL3_WRITE_PENDING_def
        connection_lost_delivered_def example_transport_def)

text \<open>The same for every such error and every transport; an exception that is no
  \<^verbatim>\<open>SSLError\<close> does reach \<^verbatim>\<open>abort\<close>.\<close>

lemma fatal_ssl_error_escapes:
  assumes "handshakes t = HandshakeRaises (SSLError n msg) # rest" and "n \<notin> {1, 2, 3}"
  shows "ssl_do_handshake x t = (Raise (SSLError n msg), t\<lparr>handshakes := rest\<rparr>)"
  using sock_do_handshake_raises[OF assms(1), of x] assms(2)
  by (simp add: ssl_do_handshake_def SSL_ERROR_WANT_READ_def SSL_ERROR_WANT_WRITE_def
        SSLV3_ALERT_CERTIFICATE_UNKNOWN_def SSL3_WRITE_PENDING_def)

lemma other_handshake_failure_aborts:
  assumes "handshakes t = HandshakeRaises e # rest" and "\<not> is_SocketError Tls e"
  shows "ssl_do_handshake x t = (Return (), abort e (t\<lparr>handshakes := rest\<rparr>))"
  using sock_do_handshake_raises[OF assms(1), of x] assms(2)
  by (simp add: ssl_do_handshake_def)

section \<open>Properties of the connector\<close>

lemma bind_loop_length:
  "bind_loop s las excs w = (r, excs', w') \<Longrightarrow>
     length excs \<le> length excs' \<and> (r = Return False \<longrightarrow> length excs' = length excs + length las)"
proof (induction las arbitrary: excs)
  case Nil
  then show ?case by simp
next
  case (Cons la las)
  show ?case
  proof (cases "bind_error w (ai_sockaddr la)")
    case None
    with Cons.prems show ?thesis by auto
  next
    case (Some exc)
    show ?thesis
    proof (cases "is_SocketError Plain exc")
      case False
      with Some Cons.prems show ?thesis by auto
    next
      case True
      show ?thesis
      proof (cases "new_bind_error (ai_sockaddr la) exc")
        case (Raise e)
        with Some True Cons.prems show ?thesis by auto
      next
        case (Return exc')
        with Some True Cons.prems
        have "bind_loop s las (excs @ [exc']) w = (r, excs', w')" by simp
        from Cons.IH[OF this] show ?thesis by auto
      qed
    qed
  qed
qed

text \<open>Every candidate that fails records at least one error, provided the list of local
  addresses, when there is one, is not empty.\<close>

lemma connect_loop_records:
  "connect_loop infos laddr_infos sock excs w = (Return None, excs', w') \<Longrightarrow>
     laddr_infos \<noteq> Some [] \<Longrightarrow> length excs + length infos \<le> length excs'"
proof (induction infos arbitrary: sock excs w)
  case Nil
  then show ?case by simp
next
  case (Cons ai ais)
  obtain r1 w1 where sf: "socket_factory w ai = (r1, w1)" by (cases "socket_factory w ai")
  show ?case
  proof (cases r1)
    case (Raise e)
    with Cons.prems(1) sf have
      "connect_loop ais laddr_infos sock (excs @ [e])
         (case sock of None \<Rightarrow> w1 | Some s \<Rightarrow> sock_close s w1) = (Return None, excs', w')"
      by (auto split: if_splits)
    from Cons.IH[OF this Cons.prems(2)] show ?thesis by simp
  next
    case (Return s)
    let ?w2 = "record_event (SetBlocking s False) w1"
    obtain rb excs1 w3 where bl:
      "(case laddr_infos of None \<Rightarrow> (Return True, excs, ?w2)
        | Some las \<Rightarrow> bind_loop s las excs ?w2) = (rb, excs1, w3)"
      by (metis prod_cases3)
    have len: "length excs \<le> length excs1 \<and> (rb = Return False \<longrightarrow> length excs < length excs1)"
    proof (cases laddr_infos)
      case None
      with bl show ?thesis by auto
    next
      case (Some las)
      with bl have b: "bind_loop s las excs ?w2 = (rb, excs1, w3)" by simp
      from Some Cons.prems(2) have "las \<noteq> []" by simp
      then have "0 < length las" by simp
      with bind_loop_length[OF b] show ?thesis by auto
    qed
    from Cons.prems(1) sf Return bl
    have step: "(case rb of
             Raise e \<Rightarrow> if is_SocketError Plain e
                        then connect_loop ais laddr_infos (Some s) (excs1 @ [e]) (sock_close s w3)
                        else (Raise e, excs1, w3)
           | Return bound \<Rightarrow>
               if \<not> bound then connect_loop ais laddr_infos None excs1 (sock_close s w3)
               else (case connect_error w3 (ai_sockaddr ai) of
                       None \<Rightarrow> (Return (Some s), excs1, record_event (Connected s (ai_sockaddr ai)) w3)
                     | Some e \<Rightarrow> if is_SocketError Plain e
                                then connect_loop ais laddr_infos (Some s) (excs1 @ [e]) (sock_close s w3)
                                else (Raise e, excs1, w3)))
          = (Return None, excs', w')"
      by (cases rb) (simp_all add: Let_def)
    show ?thesis
    proof (cases rb)
      case (Raise e)
      with step have "connect_loop ais laddr_infos (Some s) (excs1 @ [e]) (sock_close s w3)
          = (Return None, excs', w')"
        by (auto split: if_splits)
      from Cons.IH[OF this Cons.prems(2)] len show ?thesis by simp
    next
      case (Return bound)
      show ?thesis
      proof (cases bound)
        case False
        with step Return have "connect_loop ais laddr_infos None excs1 (sock_close s w3)
            = (Return None, excs', w')"
          by simp
        from Cons.IH[OF this Cons.prems(2)] len Return False show ?thesis by simp
      next
        case True
        with step Return obtain e where
          "connect_loop ais laddr_infos (Some s) (excs1 @ [e]) (sock_close s w3)
            = (Return None, excs', w')"
          by (auto split: option.splits if_splits)
        from Cons.IH[OF this Cons.prems(2)] len show ?thesis by simp
      qed
    qed
  qed
qed

lemma str_join_contains:
  "s \<in> set ss \<Longrightarrow> \<exists>pre post. str_join sep ss = pre @ s @ post"
proof (induction sep ss rule: str_join.induct)
  case (1 sep)
  then show ?case by simp
next
  case (2 sep s')
  then have "str_join sep [s'] = [] @ s @ []" by simp
  then show ?case by blast
next
  case (3 sep s' v va)
  show ?case
  proof (cases "s = s'")
    case True
    then have "str_join sep (s' # v # va) = [] @ s @ (sep @ str_join sep (v # va))" by simp
    then show ?thesis by blast
  next
    case False
    with "3.prems" have "s \<in> set (v # va)" by simp
    from "3.IH"[OF this] obtain pre post where "str_join sep (v # va) = pre @ s @ post" by blast
    then have "str_join sep (s' # v # va) = (s' @ sep @ pre) @ s @ post" by simp
    then show ?thesis by blast
  qed
qed

lemma all_failed_cases:
  "(length excs = 1 \<longrightarrow> all_failed excs = hd excs)
   \<and> (1 < length excs \<and> (\<forall>e \<in> set excs. str_exn e = str_exn (hd excs))
        \<longrightarrow> all_failed excs = hd excs)
   \<and> (1 < length excs \<and> \<not> (\<forall>e \<in> set excs. str_exn e = str_exn (hd excs))
        \<longrightarrow> all_failed excs
              = SocketError None (''Multiple exceptions: '' @ str_join '', '' (map str_exn excs))
          \<and> (\<forall>e \<in> set excs. \<exists>pre post.
                str_exn (all_failed excs) = pre @ str_exn e @ post))"
proof (cases excs)
  case Nil
  then show ?thesis by simp
next
  case (Cons first rest)
  show ?thesis
  proof (intro conjI impI)
    assume "length excs = 1"
    with Cons show "all_failed excs = hd excs" by (simp add: all_failed_def)
  next
    assume "1 < length excs \<and> (\<forall>e \<in> set excs. str_exn e = str_exn (hd excs))"
    with Cons show "all_failed excs = hd excs"
      by (simp add: all_failed_def list_all_iff)
  next
    assume a: "1 < length excs \<and> \<not> (\<forall>e \<in> set excs. str_exn e = str_exn (hd excs))"
    with Cons show m: "all_failed excs
              = SocketError None (''Multiple exceptions: '' @ str_join '', '' (map str_exn excs))"
      by (auto simp: all_failed_def list_all_iff)
    show "\<forall>e \<in> set excs. \<exists>pre post. str_exn (all_failed excs) = pre @ str_exn e @ post"
    proof
      fix e assume "e \<in> set excs"
      then have "str_exn e \<in> set (map str_exn excs)" by simp
      from str_join_contains[OF this, of "'', ''"] obtain pre post
        where "str_join '', '' (map str_exn excs) = pre @ str_exn e @ post" by blast
      then have "str_exn (all_failed excs) = (''Multiple exceptions: '' @ pre) @ str_exn e @ post"
        by (simp add: m)
      then show "\<exists>pre post. str_exn (all_failed excs) = pre @ str_exn e @ post" by blast
    qed
  qed
qed


text \<open>
  C5. When a host or port is given, no socket is passed, both resolutions succeed and
  every candidate fails with a \<^verbatim>\<open>socket.error\<close>, \<^verbatim>\<open>create_connection\<close> raises
  what the recorded errors determine: the error itself when exactly one was recorded; the
  first error when several were recorded and all have the same text; and otherwise one
  \<^verbatim>\<open>socket.error\<close> with the text \<^verbatim>\<open>Multiple exceptions:\<close> followed by the texts of
  all recorded errors, each of which occurs in the message. Each candidate records at
  least one error.
\<close>

theorem all_candidates_fail:
  assumes "c_host a \<noteq> None \<or> c_port a \<noteq> None" and "c_sock a = None"
    and "getaddrinfo w (c_host a) (c_port a) = Return infos"
    and "resolve_local w a = Return laddr_infos" and "laddr_infos \<noteq> Some []"
    and "connect_loop infos laddr_infos None [] w = (Return None, exceptions, w1)"
  shows "create_connection w a = (Raise (all_failed exceptions), w1)
       \<and> length infos \<le> length exceptions
       \<and> (length exceptions = 1 \<longrightarrow> all_failed exceptions = hd exceptions)
       \<and> (1 < length exceptions
            \<and> (\<forall>e \<in> set exceptions. str_exn e = str_exn (hd exceptions))
            \<longrightarrow> all_failed exceptions = hd exceptions)
       \<and> (1 < length exceptions
            \<and> \<not> (\<forall>e \<in> set exceptions. str_exn e = str_exn (hd exceptions))
            \<longrightarrow> all_failed exceptions
                  = SocketError None
                      (''Multiple exceptions: '' @ str_join '', '' (map str_exn exceptions))
              \<and> (\<forall>e \<in> set exceptions. \<exists>pre post.
                    str_exn (all_failed exceptions) = pre @ str_exn e @ post))"
proof -
  have "create_connection w a = (Raise (all_failed exceptions), w1)"
    using assms by (auto simp: create_connection_def)
  moreover have "length infos \<le> length exceptions"
    using connect_loop_records[OF assms(6) assms(5)] by simp
  ultimately show ?thesis using all_failed_cases[of exceptions] by blast
qed

theorem all_candidates_fail_witness:
  "fst (create_connection example_net (example_connect ''peer.example''))
     = Raise (SocketError None
         ''Multiple exceptions: [Errno 111] Connection refused, [Errno 113] No route to host'')
   \<and> fst (create_connection example_net (example_connect ''twin.example''))
     = Raise (SocketError (Some 110) ''Connection timed out'')"
proof -
  let ?e1 = "SocketError (Some 111) ''Connection refused''"
  let ?e2 = "SocketError (Some 113) ''No route to host''"
  let ?e3 = "SocketError (Some 110) ''Connection timed out''"
  let ?log = "[SocketOpened 3, SetBlocking 3 False, SocketClosed 3,
               SocketOpened 4, SetBlocking 4 False, SocketClosed 4]"
  let ?w1 = "example_net\<lparr>next_fd := 5, net_log := ?log\<rparr>"
  have hp: "c_host (example_connect h) \<noteq> None \<or> c_port (example_connect h) \<noteq> None" for h
    by (simp add: example_connect_def)
  have sk: "c_sock (example_connect h) = None" for h by (simp add: example_connect_def)
  have rl: "resolve_local example_net (example_connect h) = Return None" for h
    by (simp add: resolve_local_def example_connect_def)
  have ne: "(None :: addrinfo list option) \<noteq> Some []" by simp
  have g1: "getaddrinfo example_net (c_host (example_connect ''peer.example''))
              (c_port (example_connect ''peer.example''))
            = Return [example_addrinfo ''10.0.0.1:80'', example_addrinfo ''10.0.0.2:80'']"
    by (simp add: example_net_def example_connect_def)
  have g2: "getaddrinfo example_net (c_host (example_connect ''twin.example''))
              (c_port (example_connect ''twin.example''))
            = Return [example_addrinfo ''10.0.0.3:80'', example_addrinfo ''10.0.0.4:80'']"
    by (simp add: example_net_def example_connect_def)
  have l1: "connect_loop [example_addrinfo ''10.0.0.1:80'', example_addrinfo ''10.0.0.2:80'']
              None None [] example_net = (Return None, [?e1, ?e2], ?w1)"
    by (simp add: example_net_def example_addrinfo_def socket_factory_def record_event_def
          sock_close_def Let_def)
  have l2: "connect_loop [example_addrinfo ''10.0.0.3:80'', example_addrinfo ''10.0.0.4:80'']
              None None [] example_net = (Return None, [?e3, ?e3], ?w1)"
    by (simp add: example_net_def example_addrinfo_def socket_factory_def record_event_def
          sock_close_def Let_def)
  have distinct: "1 < length [?e1, ?e2] \<and> \<not> (\<forall>e \<in> set [?e1, ?e2]. str_exn e = str_exn (hd [?e1, ?e2]))"
    by code_simp
  have same: "1 < length [?e3, ?e3] \<and> (\<forall>e \<in> set [?e3, ?e3]. str_exn e = str_exn (hd [?e3, ?e3]))"
    by simp
  have msg: "''Multiple exceptions: '' @ str_join '', '' (map str_exn [?e1, ?e2])
      = ''Multiple exceptions: [Errno 111] Connection refused, [Errno 113] No route to host''"
    by code_simp
  note t1 = all_candidates_fail[OF hp sk g1 rl ne l1]
  note t2 = all_candidates_fail[OF hp sk g2 rl ne l2]
  from t1 distinct have "create_connection example_net (example_connect ''peer.example'')
      = (Raise (SocketError None
          (''Multiple exceptions: '' @ str_join '', '' (map str_exn [?e1, ?e2]))), ?w1)"
    by metis
  then have a: "fst (create_connection example_net (example_connect ''peer.example''))
     = Raise (SocketError None
         ''Multiple exceptions: [Errno 111] Connection refused, [Errno 113] No route to host'')"
    by (simp only: msg fst_conv)
  from t2 same have "create_connection example_net (example_connect ''twin.example'')
      = (Raise (hd [?e3, ?e3]), ?w1)"
    by metis
  then have b: "fst (create_connection example_net (example_connect ''twin.example''))
     = Raise ?e3"
    by simp
  from a b show ?thesis by blast
qed

text \<open>What \<^verbatim>\<open>create_connection\<close> does with its configuration errors. Two of them are
  raised with the network untouched.\<close>

lemma host_and_sock_rejected:
  assumes "c_host a \<noteq> None \<or> c_port a \<noteq> None" and "c_sock a \<noteq> None"
  shows "create_connection w a
    = (Raise (ValueError ''host/port and sock can not be specified at the same time''), w)"
  using assms by (simp add: create_connection_def)

lemma empty_local_resolution_rejected:
  assumes "c_host a \<noteq> None \<or> c_port a \<noteq> None" and "c_sock a = None"
    and "getaddrinfo w (c_host a) (c_port a) = Return infos"
    and "resolve_local w a = Return (Some [])"
  shows "create_connection w a
    = (Raise (SocketError None ''getaddrinfo() returned empty list''), w)"
  using assms by (simp add: create_connection_def)

lemma empty_target_resolution:
  assumes "c_host a \<noteq> None \<or> c_port a \<noteq> None" and "c_sock a = None"
    and "getaddrinfo w (c_host a) (c_port a) = Return []"
    and "resolve_local w a = Return laddr_infos" and "laddr_infos \<noteq> Some []"
  shows "create_connection w a = (Raise (IndexError ''list index out of range''), w)"
  using assms by (simp add: create_connection_def all_failed_def)

text \<open>
  C6 fails on the code for the remote target. \<^verbatim>\<open>create_connection\<close> has no check for an
  empty resolution result of the target, as it has for the local address: the candidate
  loop runs zero times and \<^verbatim>\<open>exceptions[0]\<close> raises \<^verbatim>\<open>IndexError\<close>, which is no
  configuration error. No socket call is made.
\<close>

theorem empty_target_index_error:
  "fst (create_connection example_net (example_connect ''nowhere.example''))
     = Raise (IndexError ''list index out of range'')
   \<and> net_log (snd (create_connection example_net (example_connect ''nowhere.example''))) = []"
  by (simp add: create_connection_def resolve_local_def all_failed_def example_net_def
        example_connect_def)

theorem empty_target_index_error_witness:
  "c_host (example_connect ''nowhere.example'') = Some ''nowhere.example''
   \<and> c_sock (example_connect ''nowhere.example'') = None
   \<and> c_local_addr (example_connect ''nowhere.example'') = None
   \<and> getaddrinfo example_net (Some ''nowhere.example'') (Some 80) = Return []
   \<and> fst (create_connection example_net (example_connect ''nowhere.example''))
       = Raise (IndexError ''list index out of range'')"
  using empty_target_index_error by (simp add: example_connect_def example_net_def)

section \<open>Properties of the listener\<close>

lemma socket_factory_Return:
  "socket_factory w ai = (Return s, w1) \<Longrightarrow>
     net_log w1 = net_log w @ [SocketOpened s] \<and> bind_error w1 = bind_error w
     \<and> socket_error w1 = socket_error w \<and> AF_INET6 w1 = AF_INET6 w
     \<and> has_IPPROTO_IPV6 w1 = has_IPPROTO_IPV6 w"
  by (auto simp: socket_factory_def split: option.splits)

lemma set_options_frame:
  "\<exists>evs. net_log (set_options reuse ai s w) = net_log w @ evs
      \<and> (\<forall>ev \<in> set evs. \<exists>opt. ev = SetSockOpt s opt)"
  "bind_error (set_options reuse ai s w) = bind_error w"
  by (auto simp: set_options_def Let_def record_event_def)

lemma socket_factory_Raise: "socket_factory w ai = (Raise e, w1) \<Longrightarrow> w1 = w"
  by (auto simp: socket_factory_def split: option.splits)

text \<open>What the opening loop leaves behind: the log grows by events that open only
  sockets of the list and that neither close nor listen, and a candidate whose bind fails
  makes the loop raise.\<close>

lemma open_loop_log:
  "open_loop reuse infos sockets w = (r, sockets', w') \<Longrightarrow>
     \<exists>evs. net_log w' = net_log w @ evs
        \<and> (\<forall>s. SocketOpened s \<in> set evs \<longrightarrow> s \<in> set sockets')
        \<and> (\<forall>ev \<in> set evs. \<not> is_listen ev)
        \<and> set sockets \<subseteq> set sockets'"
proof (induction infos arbitrary: sockets w)
  case Nil
  then show ?case by simp
next
  case (Cons ai ais)
  obtain r1 w1 where sf: "socket_factory w ai = (r1, w1)" by (cases "socket_factory w ai")
  show ?case
  proof (cases r1)
    case (Raise e)
    with Cons.prems sf socket_factory_Raise[of w ai e w1] show ?thesis by simp
  next
    case (Return s)
    note f = socket_factory_Return[OF sf[unfolded Return]]
    let ?w3 = "set_options reuse ai s w1"
    from set_options_frame(1)[of reuse ai s w1] f
    obtain evs0 where evs0: "net_log ?w3 = net_log w @ SocketOpened s # evs0"
      "\<forall>ev \<in> set evs0. \<exists>opt. ev = SetSockOpt s opt"
      by auto
    have step: "(case bind_error ?w3 (ai_sockaddr ai) of
                None \<Rightarrow> open_loop reuse ais (sockets @ [s]) (record_event (Bound s (ai_sockaddr ai)) ?w3)
              | Some err \<Rightarrow>
                  if is_SocketError Plain err then
                    (case new_bind_error (ai_sockaddr ai) err of
                       Raise e \<Rightarrow> (Raise e, sockets @ [s], ?w3)
                     | Return err' \<Rightarrow> (Raise err', sockets @ [s], ?w3))
                  else (Raise err, sockets @ [s], ?w3)) = (r, sockets', w')"
      using Cons.prems sf Return by (simp add: Let_def)
    show ?thesis
    proof (cases "bind_error ?w3 (ai_sockaddr ai)")
      case (Some err)
      with step have "sockets' = sockets @ [s]" "w' = ?w3"
        by (auto split: if_splits outcome.splits)
      with evs0 show ?thesis by (intro exI[of _ "SocketOpened s # evs0"]) auto
    next
      case None
      with step have "open_loop reuse ais (sockets @ [s]) (record_event (Bound s (ai_sockaddr ai)) ?w3)
          = (r, sockets', w')" by simp
      from Cons.IH[OF this] obtain evs where evs:
        "net_log w' = net_log (record_event (Bound s (ai_sockaddr ai)) ?w3) @ evs"
        "\<forall>s. SocketOpened s \<in> set evs \<longrightarrow> s \<in> set sockets'"
        "\<forall>ev \<in> set evs. \<not> is_listen ev" "set (sockets @ [s]) \<subseteq> set sockets'"
        by blast
      with evs0 show ?thesis
        by (intro exI[of _ "SocketOpened s # evs0 @ Bound s (ai_sockaddr ai) # evs"])
           (auto simp: record_event_def)
    qed
  qed
qed

lemma open_loop_bind_failure:
  "ai \<in> set infos \<Longrightarrow> bind_error w (ai_sockaddr ai) = Some err \<Longrightarrow>
     \<exists>e. fst (open_loop reuse infos sockets w) = Raise e"
proof (induction infos arbitrary: sockets w)
  case Nil
  then show ?case by simp
next
  case (Cons ai' ais)
  obtain r1 w1 where sf: "socket_factory w ai' = (r1, w1)" by (cases "socket_factory w ai'")
  show ?case
  proof (cases r1)
    case (Raise e)
    with sf show ?thesis by simp
  next
    case (Return s)
    note f = socket_factory_Return[OF sf[unfolded Return]]
    let ?w3 = "set_options reuse ai' s w1"
    have b3: "bind_error ?w3 = bind_error w"
      using f by (simp add: set_options_frame(2))
    have eq: "open_loop reuse (ai' # ais) sockets w =
            (case bind_error ?w3 (ai_sockaddr ai') of
                None \<Rightarrow> open_loop reuse ais (sockets @ [s]) (record_event (Bound s (ai_sockaddr ai')) ?w3)
              | Some err \<Rightarrow>
                  if is_SocketError Plain err then
                    (case new_bind_error (ai_sockaddr ai') err of
                       Raise e \<Rightarrow> (Raise e, sockets @ [s], ?w3)
                     | Return err' \<Rightarrow> (Raise err', sockets @ [s], ?w3))
                  else (Raise err, sockets @ [s], ?w3))"
      using sf Return by (simp add: Let_def)
    show ?thesis
    proof (cases "bind_error ?w3 (ai_sockaddr ai')")
      case (Some err')
      then show ?thesis unfolding eq by (auto split: outcome.splits)
    next
      case None
      with b3 Cons.prems have "ai \<in> set ais" by auto
      moreover have "bind_error (record_event (Bound s (ai_sockaddr ai')) ?w3) (ai_sockaddr ai) = Some err"
        using b3 Cons.prems(2) by (simp add: record_event_def)
      ultimately have "\<exists>e. fst (open_loop reuse ais (sockets @ [s])
          (record_event (Bound s (ai_sockaddr ai')) ?w3)) = Raise e"
        by (rule Cons.IH)
      with None show ?thesis unfolding eq by simp
    qed
  qed
qed

lemma close_all_log: "net_log (close_all sockets w) = net_log w @ map SocketClosed sockets"
  by (induction sockets arbitrary: w) (simp_all add: close_all_def sock_close_def record_event_def)


text \<open>
  C9. When \<^verbatim>\<open>start_serving\<close> is given a host or port and no socket, and the bind fails
  for one of the resolved addresses, the call raises, every socket it opened has been
  closed when it returns, and no socket was put into listening mode or given an accept
  callback.
\<close>

theorem bind_failure_closes_all:
  assumes "s_host a \<noteq> None \<or> s_port a \<noteq> None" and "s_sock a = NoSock"
    and "getaddrinfo w (if s_host a = Some [] then None else s_host a) (s_port a) = Return infos"
    and "ai \<in> set infos" and "bind_error w (ai_sockaddr ai) = Some err"
  shows "(\<exists>e. fst (start_serving w a) = Raise e)
       \<and> (\<forall>s. SocketOpened s \<in> set (new_events w (snd (start_serving w a)))
              \<longrightarrow> SocketClosed s \<in> set (new_events w (snd (start_serving w a))))
       \<and> (\<forall>ev \<in> set (new_events w (snd (start_serving w a))). \<not> is_listen ev)"
proof -
  let ?reuse = "case s_reuse_address a of None \<Rightarrow> reuse_default w | Some b \<Rightarrow> b"
  obtain r sockets' w1 where ol: "open_loop ?reuse infos [] w = (r, sockets', w1)"
    by (metis prod_cases3)
  from open_loop_bind_failure[OF assms(4,5), of ?reuse "[]"] ol
  obtain e where r: "r = Raise e" by auto
  from assms(4) have ne: "infos \<noteq> []" by auto
  have ss: "start_serving w a = (Raise e, close_all sockets' w1)"
    using assms(1,2,3) ne ol r by (simp add: start_serving_def Let_def)
  from open_loop_log[OF ol] obtain evs where evs:
    "net_log w1 = net_log w @ evs" "\<forall>s. SocketOpened s \<in> set evs \<longrightarrow> s \<in> set sockets'"
    "\<forall>ev \<in> set evs. \<not> is_listen ev"
    by blast
  have ne: "new_events w (snd (start_serving w a)) = evs @ map SocketClosed sockets'"
    by (simp add: ss new_events_def close_all_log evs(1))
  show ?thesis
    unfolding ne using evs(2,3) by (auto simp: ss)
qed

theorem bind_failure_closes_all_witness:
  "fst (start_serving example_net example_serve)
     = Raise (SocketError (Some 98)
         ''error while attempting to bind on address [::]:80: address already in use'')
   \<and> new_events example_net (snd (start_serving example_net example_serve))
     = [SocketOpened 3, SetSockOpt 3 SO_REUSEADDR, Bound 3 ''0.0.0.0:80'',
        SocketOpened 4, SetSockOpt 4 SO_REUSEADDR, SocketClosed 3, SocketClosed 4]
   \<and> filter is_listen (new_events example_net (snd (start_serving example_net example_serve))) = []"
proof -
  have hp: "s_host example_serve \<noteq> None \<or> s_port example_serve \<noteq> None"
    by (simp add: example_serve_def)
  have sk: "s_sock example_serve = NoSock" by (simp add: example_serve_def)
  have g: "getaddrinfo example_net
             (if s_host example_serve = Some [] then None else s_host example_serve)
             (s_port example_serve)
           = Return [example_addrinfo ''0.0.0.0:80'', example_addrinfo ''[::]:80'']"
    by (simp add: example_net_def example_serve_def)
  have m: "example_addrinfo ''[::]:80''
             \<in> set [example_addrinfo ''0.0.0.0:80'', example_addrinfo ''[::]:80'']"
    by simp
  have b: "bind_error example_net (ai_sockaddr (example_addrinfo ''[::]:80''))
             = Some (SocketError (Some 98) ''Address already in use'')"
    by (simp add: example_net_def example_addrinfo_def)
  from bind_failure_closes_all[OF hp sk g m b]
  have "\<forall>ev \<in> set (new_events example_net (snd (start_serving example_net example_serve))).
          \<not> is_listen ev"
    by blast
  then have c: "filter is_listen
      (new_events example_net (snd (start_serving example_net example_serve))) = []"
    by (simp add: filter_empty_conv)
  have a: "fst (start_serving example_net example_serve)
     = Raise (SocketError (Some 98)
         ''error while attempting to bind on address [::]:80: address already in use'')"
    by code_simp
  have n: "new_events example_net (snd (start_serving example_net example_serve))
     = [SocketOpened 3, SetSockOpt 3 SO_REUSEADDR, Bound 3 ''0.0.0.0:80'',
        SocketOpened 4, SetSockOpt 4 SO_REUSEADDR, SocketClosed 3, SocketClosed 4]"
    by code_simp
  from a n c show ?thesis by blast
qed


end
